theory Spec2Isabelle
  imports Main
begin

section \<open>Errors and backing storage\<close>

text \<open>
  The exceptions the sources raise, as values. A function of the sources that may raise
  returns \<open>error + 'a\<close>, with \<open>Inl\<close> for the exception; what a call has written
  before it raises is not part of the result.
\<close>

datatype error = ValueError | PermissionError | IndexError | KeyError | TypeError | AttributeError

fun bind_err :: "error + 'a \<Rightarrow> ('a \<Rightarrow> error + 'b) \<Rightarrow> error + 'b" where
  "bind_err (Inl e) f = Inl e"
| "bind_err (Inr x) f = f x"

text \<open>
  The HDF5 group that backs one field: its attributes, its datasets by name, and its
  datasets of variable-length strings by name (categorical key names). The element type
  of the datasets is a parameter: naturals for an indexed string (offsets and bytes),
  integer codes for a categorical, any type for the other fixed-width encodings.
\<close>

datatype attr = IntAttr int | StrAttr string

record 'a h5field =
  attrs :: "string \<rightharpoonup> attr"
  dsets :: "string \<rightharpoonup> 'a list"
  names :: "string \<rightharpoonup> string list"

type_synonym 'a group = "string \<rightharpoonup> 'a h5field"

definition h5_dataset :: "'a h5field \<Rightarrow> string \<Rightarrow> error + 'a list" where
  "h5_dataset f name = (case dsets f name of None \<Rightarrow> Inl KeyError | Some xs \<Rightarrow> Inr xs)"

text \<open>
  Modelled from the spec: \<open>DataWriter\<close> (exetera/core/data_writer.py) is not among the
  sources. The spec asks of the backing storage "create/resize/read/write a 1-D typed
  array" and "append/resize of a flat array": \<open>DataWriter.write(group, name, data, count)\<close>
  appends the first \<open>count\<close> entries of \<open>data\<close> to the dataset \<open>name\<close> of the group,
  creating the dataset when the group has none of that name;
  \<open>DataWriter.clear_dataset\<close> removes the dataset ("truncates backing storage to zero
  length" once \<open>write\<close> has created it again, empty); \<open>DataWriter.flush\<close> leaves the
  contents as they are.
\<close>

definition DataWriter_write :: "'a h5field \<Rightarrow> string \<Rightarrow> 'a list \<Rightarrow> nat \<Rightarrow> 'a h5field" where
  "DataWriter_write grp name part count =
     grp\<lparr>dsets := (dsets grp)(name \<mapsto>
        (case dsets grp name of None \<Rightarrow> [] | Some old \<Rightarrow> old) @ take count part)\<rparr>"

definition DataWriter_write_names :: "'a h5field \<Rightarrow> string \<Rightarrow> string list \<Rightarrow> nat \<Rightarrow> 'a h5field" where
  "DataWriter_write_names grp name part count =
     grp\<lparr>names := (names grp)(name \<mapsto>
        (case names grp name of None \<Rightarrow> [] | Some old \<Rightarrow> old) @ take count part)\<rparr>"

definition DataWriter_clear_dataset :: "'a h5field \<Rightarrow> string \<Rightarrow> 'a h5field" where
  "DataWriter_clear_dataset grp name = grp\<lparr>dsets := (dsets grp)(name := None)\<rparr>"

definition DataWriter_flush :: "'a h5field \<Rightarrow> string \<Rightarrow> 'a h5field" where
  "DataWriter_flush grp name = grp"

section \<open>Field constructors (fields.py)\<close>

record session =
  session_chunksize :: int

fun format_digit :: "nat \<Rightarrow> char" where
  "format_digit n = char_of (48 + n)"

function format_nat :: "nat \<Rightarrow> string" where
  "format_nat n = (if n < 10 then [format_digit n]
                   else format_nat (n div 10) @ [format_digit (n mod 10)])"
  by pat_completeness auto
termination
  by (relation "measure id") auto

definition format_int :: "int \<Rightarrow> string" where
  "format_int i = (if i < 0 then CHR ''-'' # format_nat (nat (- i)) else format_nat (nat i))"

text \<open>
  \<open>base_field_contructor\<close>: the name must be new in the group; the new child group gets
  the attributes \<open>chunksize\<close> and \<open>timestamp\<close>. Both assignments of the source have the
  same right-hand side, \<open>session.chunksize if chunksize is None else chunksize\<close>; the
  \<open>timestamp\<close> argument is not read. The child is returned; each constructor stores it
  in the group under its name once it has written the child's datasets (in the source
  the child is a reference into the group).
\<close>

definition base_field_contructor ::
  "session \<Rightarrow> 'a group \<Rightarrow> string \<Rightarrow> string option \<Rightarrow> int option \<Rightarrow> error + 'a h5field" where
  "base_field_contructor s grp name timestamp csz =
     (if name \<in> dom grp then Inl ValueError
      else
        let field = \<lparr>attrs = Map.empty, dsets = Map.empty, names = Map.empty\<rparr>;
            field = field\<lparr>attrs := (attrs field)(''chunksize'' \<mapsto>
                      IntAttr (case csz of None \<Rightarrow> session_chunksize s | Some c \<Rightarrow> c))\<rparr>;
            field = field\<lparr>attrs := (attrs field)(''timestamp'' \<mapsto>
                      IntAttr (case csz of None \<Rightarrow> session_chunksize s | Some c \<Rightarrow> c))\<rparr>
        in Inr field)"

definition indexed_string_field_constructor ::
  "session \<Rightarrow> 'a group \<Rightarrow> string \<Rightarrow> string option \<Rightarrow> int option \<Rightarrow> error + 'a group" where
  "indexed_string_field_constructor s grp name timestamp csz =
     bind_err (base_field_contructor s grp name timestamp csz) (\<lambda>field.
       let field = field\<lparr>attrs := (attrs field)(''fieldtype'' \<mapsto> StrAttr ''indexedstring'')\<rparr>;
           field = DataWriter_write field ''index'' [] 0;
           field = DataWriter_write field ''values'' [] 0
       in Inr (grp(name \<mapsto> field)))"

definition fixed_string_field_constructor ::
  "session \<Rightarrow> 'a group \<Rightarrow> string \<Rightarrow> int \<Rightarrow> string option \<Rightarrow> int option \<Rightarrow> error + 'a group" where
  "fixed_string_field_constructor s grp name len timestamp csz =
     bind_err (base_field_contructor s grp name timestamp csz) (\<lambda>field.
       let field = field\<lparr>attrs := (attrs field)(''fieldtype'' \<mapsto>
                     StrAttr (''fixedstring,'' @ format_int len))\<rparr>;
           field = field\<lparr>attrs := (attrs field)(''strlen'' \<mapsto> IntAttr len)\<rparr>;
           field = DataWriter_write field ''values'' [] 0
       in Inr (grp(name \<mapsto> field)))"

definition numeric_field_constructor ::
  "session \<Rightarrow> 'a group \<Rightarrow> string \<Rightarrow> string \<Rightarrow> string option \<Rightarrow> int option \<Rightarrow> error + 'a group" where
  "numeric_field_constructor s grp name nformat timestamp csz =
     bind_err (base_field_contructor s grp name timestamp csz) (\<lambda>field.
       let field = field\<lparr>attrs := (attrs field)(''fieldtype'' \<mapsto>
                     StrAttr (''numeric,'' @ nformat))\<rparr>;
           field = field\<lparr>attrs := (attrs field)(''nformat'' \<mapsto> StrAttr nformat)\<rparr>;
           field = DataWriter_write field ''values'' [] 0
       in Inr (grp(name \<mapsto> field)))"

text \<open>
  The key table of a categorical is a Python dict from key name to code, in insertion
  order: an association list.
\<close>

definition categorical_field_constructor ::
  "session \<Rightarrow> int group \<Rightarrow> string \<Rightarrow> string \<Rightarrow> (string \<times> int) list \<Rightarrow> string option \<Rightarrow>
   int option \<Rightarrow> error + int group" where
  "categorical_field_constructor s grp name nformat key timestamp csz =
     bind_err (base_field_contructor s grp name timestamp csz) (\<lambda>field.
       let field = field\<lparr>attrs := (attrs field)(''fieldtype'' \<mapsto>
                     StrAttr (''categorical,'' @ nformat))\<rparr>;
           field = field\<lparr>attrs := (attrs field)(''nformat'' \<mapsto> StrAttr nformat)\<rparr>;
           field = DataWriter_write field ''values'' [] 0;
           key_values = map snd key;
           key_names = map fst key;
           field = DataWriter_write field ''key_values'' key_values (length key_values);
           field = DataWriter_write_names field ''key_names'' key_names (length key_names)
       in Inr (grp(name \<mapsto> field)))"

definition timestamp_field_constructor ::
  "session \<Rightarrow> 'a group \<Rightarrow> string \<Rightarrow> string option \<Rightarrow> int option \<Rightarrow> error + 'a group" where
  "timestamp_field_constructor s grp name timestamp csz =
     bind_err (base_field_contructor s grp name timestamp csz) (\<lambda>field.
       let field = field\<lparr>attrs := (attrs field)(''fieldtype'' \<mapsto> StrAttr ''timestamp'')\<rparr>;
           field = DataWriter_write field ''values'' [] 0
       in Inr (grp(name \<mapsto> field)))"

text \<open>The properties \<open>HDF5Field.timestamp\<close> and \<open>HDF5Field.chunksize\<close> read the attributes.\<close>

definition HDF5Field_timestamp :: "'a h5field \<Rightarrow> error + attr" where
  "HDF5Field_timestamp field =
     (case attrs field ''timestamp'' of None \<Rightarrow> Inl KeyError | Some v \<Rightarrow> Inr v)"

definition HDF5Field_chunksize :: "'a h5field \<Rightarrow> error + attr" where
  "HDF5Field_chunksize field =
     (case attrs field ''chunksize'' of None \<Rightarrow> Inl KeyError | Some v \<Rightarrow> Inr v)"

subsection \<open>The persisted timestamp attribute\<close>

lemma base_field_contructor_new:
  "name \<notin> dom grp \<Longrightarrow>
   base_field_contructor s grp name ts csz =
     Inr \<lparr>attrs = [''chunksize'' \<mapsto> IntAttr (case csz of None \<Rightarrow> session_chunksize s | Some c \<Rightarrow> c),
                  ''timestamp'' \<mapsto> IntAttr (case csz of None \<Rightarrow> session_chunksize s | Some c \<Rightarrow> c)],
          dsets = Map.empty, names = Map.empty\<rparr>"
  by (simp add: base_field_contructor_def Let_def)

lemma base_field_contructor_ignores_timestamp:
  "base_field_contructor s grp name ts' csz = base_field_contructor s grp name ts csz"
  by (simp add: base_field_contructor_def)

text \<open>
  C10. Every field constructor (indexed string, fixed string, numeric, categorical,
  timestamp) that is given a name new to its group succeeds, and the field it creates
  has its persisted \<open>timestamp\<close> attribute equal to the chunk size: the session's default
  when no \<open>chunksize\<close> argument is given, else that argument. So the \<open>timestamp\<close> property
  of the field returns the chunk size, and the \<open>timestamp\<close> argument passed at creation
  is ignored: any other timestamp argument gives the same result.
\<close>

theorem constructors_persist_chunksize_as_timestamp:
  assumes "name \<notin> dom grp" and "name \<notin> dom cgrp"
  shows
   "(\<exists>field. indexed_string_field_constructor s grp name ts csz = Inr (grp(name \<mapsto> field))
        \<and> HDF5Field_timestamp field
            = Inr (IntAttr (case csz of None \<Rightarrow> session_chunksize s | Some c \<Rightarrow> c))
        \<and> HDF5Field_chunksize field = HDF5Field_timestamp field) \<and>
    (\<exists>field. fixed_string_field_constructor s grp name len ts csz = Inr (grp(name \<mapsto> field))
        \<and> HDF5Field_timestamp field
            = Inr (IntAttr (case csz of None \<Rightarrow> session_chunksize s | Some c \<Rightarrow> c))
        \<and> HDF5Field_chunksize field = HDF5Field_timestamp field) \<and>
    (\<exists>field. numeric_field_constructor s grp name nformat ts csz = Inr (grp(name \<mapsto> field))
        \<and> HDF5Field_timestamp field
            = Inr (IntAttr (case csz of None \<Rightarrow> session_chunksize s | Some c \<Rightarrow> c))
        \<and> HDF5Field_chunksize field = HDF5Field_timestamp field) \<and>
    (\<exists>field. categorical_field_constructor s cgrp name nformat key ts csz = Inr (cgrp(name \<mapsto> field))
        \<and> HDF5Field_timestamp field
            = Inr (IntAttr (case csz of None \<Rightarrow> session_chunksize s | Some c \<Rightarrow> c))
        \<and> HDF5Field_chunksize field = HDF5Field_timestamp field) \<and>
    (\<exists>field. timestamp_field_constructor s grp name ts csz = Inr (grp(name \<mapsto> field))
        \<and> HDF5Field_timestamp field
            = Inr (IntAttr (case csz of None \<Rightarrow> session_chunksize s | Some c \<Rightarrow> c))
        \<and> HDF5Field_chunksize field = HDF5Field_timestamp field) \<and>
    indexed_string_field_constructor s grp name ts' csz
      = indexed_string_field_constructor s grp name ts csz \<and>
    fixed_string_field_constructor s grp name len ts' csz
      = fixed_string_field_constructor s grp name len ts csz \<and>
    numeric_field_constructor s grp name nformat ts' csz
      = numeric_field_constructor s grp name nformat ts csz \<and>
    categorical_field_constructor s cgrp name nformat key ts' csz
      = categorical_field_constructor s cgrp name nformat key ts csz \<and>
    timestamp_field_constructor s grp name ts' csz
      = timestamp_field_constructor s grp name ts csz"
proof -
  note b = base_field_contructor_new [OF assms(1)] base_field_contructor_new [OF assms(2)]
  have 1: "\<exists>field. indexed_string_field_constructor s grp name ts csz = Inr (grp(name \<mapsto> field))
        \<and> HDF5Field_timestamp field
            = Inr (IntAttr (case csz of None \<Rightarrow> session_chunksize s | Some c \<Rightarrow> c))
        \<and> HDF5Field_chunksize field = HDF5Field_timestamp field"
    by (simp add: indexed_string_field_constructor_def b Let_def DataWriter_write_def
        HDF5Field_timestamp_def HDF5Field_chunksize_def)
       (intro exI conjI, rule refl, simp_all)
  have 2: "\<exists>field. fixed_string_field_constructor s grp name len ts csz = Inr (grp(name \<mapsto> field))
        \<and> HDF5Field_timestamp field
            = Inr (IntAttr (case csz of None \<Rightarrow> session_chunksize s | Some c \<Rightarrow> c))
        \<and> HDF5Field_chunksize field = HDF5Field_timestamp field"
    by (simp add: fixed_string_field_constructor_def b Let_def DataWriter_write_def
        HDF5Field_timestamp_def HDF5Field_chunksize_def)
       (intro exI conjI, rule refl, simp_all)
  have 3: "\<exists>field. numeric_field_constructor s grp name nformat ts csz = Inr (grp(name \<mapsto> field))
        \<and> HDF5Field_timestamp field
            = Inr (IntAttr (case csz of None \<Rightarrow> session_chunksize s | Some c \<Rightarrow> c))
        \<and> HDF5Field_chunksize field = HDF5Field_timestamp field"
    by (simp add: numeric_field_constructor_def b Let_def DataWriter_write_def
        HDF5Field_timestamp_def HDF5Field_chunksize_def)
       (intro exI conjI, rule refl, simp_all)
  have 4: "\<exists>field. categorical_field_constructor s cgrp name nformat key ts csz = Inr (cgrp(name \<mapsto> field))
        \<and> HDF5Field_timestamp field
            = Inr (IntAttr (case csz of None \<Rightarrow> session_chunksize s | Some c \<Rightarrow> c))
        \<and> HDF5Field_chunksize field = HDF5Field_timestamp field"
    by (simp add: categorical_field_constructor_def b Let_def DataWriter_write_def
        DataWriter_write_names_def HDF5Field_timestamp_def HDF5Field_chunksize_def)
       (intro exI conjI, rule refl, simp_all)
  have 5: "\<exists>field. timestamp_field_constructor s grp name ts csz = Inr (grp(name \<mapsto> field))
        \<and> HDF5Field_timestamp field
            = Inr (IntAttr (case csz of None \<Rightarrow> session_chunksize s | Some c \<Rightarrow> c))
        \<and> HDF5Field_chunksize field = HDF5Field_timestamp field"
    by (simp add: timestamp_field_constructor_def b Let_def DataWriter_write_def
        HDF5Field_timestamp_def HDF5Field_chunksize_def)
       (intro exI conjI, rule refl, simp_all)
  note i = base_field_contructor_ignores_timestamp [of _ _ _ ts' _ ts]
  have 6: "indexed_string_field_constructor s grp name ts' csz
      = indexed_string_field_constructor s grp name ts csz"
    by (simp add: indexed_string_field_constructor_def i)
  have 7: "fixed_string_field_constructor s grp name len ts' csz
      = fixed_string_field_constructor s grp name len ts csz"
    by (simp add: fixed_string_field_constructor_def i)
  have 8: "numeric_field_constructor s grp name nformat ts' csz
      = numeric_field_constructor s grp name nformat ts csz"
    by (simp add: numeric_field_constructor_def i)
  have 9: "categorical_field_constructor s cgrp name nformat key ts' csz
      = categorical_field_constructor s cgrp name nformat key ts csz"
    by (simp add: categorical_field_constructor_def i)
  have 10: "timestamp_field_constructor s grp name ts' csz
      = timestamp_field_constructor s grp name ts csz"
    by (simp add: timestamp_field_constructor_def i)
  from 1 2 3 4 5 6 7 8 9 10 show ?thesis by blast
qed

theorem constructors_persist_chunksize_as_timestamp_witness:
  "''age'' \<notin> dom (Map.empty :: nat group) \<and> ''age'' \<notin> dom (Map.empty :: int group) \<and>
   (\<exists>field. numeric_field_constructor \<lparr>session_chunksize = 4096\<rparr> (Map.empty :: nat group)
               ''age'' ''int32'' (Some ''2021-03-04'') None = Inr [''age'' \<mapsto> field]
        \<and> HDF5Field_timestamp field = Inr (IntAttr 4096)) \<and>
   (\<exists>field. numeric_field_constructor \<lparr>session_chunksize = 4096\<rparr> (Map.empty :: nat group)
               ''age'' ''int32'' (Some ''2021-03-04'') (Some 16) = Inr [''age'' \<mapsto> field]
        \<and> HDF5Field_timestamp field = Inr (IntAttr 16))"
proof -
  have a: "''age'' \<notin> dom (Map.empty :: nat group)" and b: "''age'' \<notin> dom (Map.empty :: int group)"
    by simp_all
  from constructors_persist_chunksize_as_timestamp
         [where s = "\<lparr>session_chunksize = 4096\<rparr>" and ts = "Some ''2021-03-04''"
             and nformat = "''int32''" and csz = None, OF a b,
          THEN conjunct2, THEN conjunct2, THEN conjunct1]
  have 1: "\<exists>field. numeric_field_constructor \<lparr>session_chunksize = 4096\<rparr> (Map.empty :: nat group)
               ''age'' ''int32'' (Some ''2021-03-04'') None = Inr [''age'' \<mapsto> field]
        \<and> HDF5Field_timestamp field = Inr (IntAttr 4096)"
    by (elim exE conjE, intro exI conjI) simp_all
  from constructors_persist_chunksize_as_timestamp
         [where s = "\<lparr>session_chunksize = 4096\<rparr>" and ts = "Some ''2021-03-04''"
             and nformat = "''int32''" and csz = "Some 16", OF a b,
          THEN conjunct2, THEN conjunct2, THEN conjunct1]
  have 2: "\<exists>field. numeric_field_constructor \<lparr>session_chunksize = 4096\<rparr> (Map.empty :: nat group)
               ''age'' ''int32'' (Some ''2021-03-04'') (Some 16) = Inr [''age'' \<mapsto> field]
        \<and> HDF5Field_timestamp field = Inr (IntAttr 16)"
    by (elim exE conjE, intro exI conjI) simp_all
  from a b 1 2 show ?thesis by blast
qed

section \<open>WriteableIndexedFieldArray (fields.py)\<close>

text \<open>
  A Python \<open>str\<close> is modelled by its UTF-8 bytes, an Isabelle \<open>string\<close> (a list of 8-bit
  characters): \<open>s.encode()\<close> gives the bytes as numbers, over which \<open>write_part\<close>
  iterates, and \<open>bytes.decode()\<close> reads them back. Offsets and bytes are naturals; the
  64-bit range of the offsets is not modelled (an offset is the number of bytes written).
\<close>

definition encode :: "string \<Rightarrow> nat list" where
  "encode s = map of_char s"

definition decode :: "nat list \<Rightarrow> string" where
  "decode bs = map char_of bs"

text \<open>Python's \<open>xs[a:b]\<close> for \<open>0 \<le> a\<close> and \<open>0 \<le> b\<close>.\<close>

definition slice :: "'a list \<Rightarrow> nat \<Rightarrow> nat \<Rightarrow> 'a list" where
  "slice xs a b = take (b - a) (drop a xs)"

text \<open>
  The writer's state: the backing group (in the source a reference, here owned by the
  array), the two dataset names, the chunk size, the two buffers of \<open>chunksize\<close> entries,
  the accumulated offset and the fill indices of the buffers.
\<close>

record WriteableIndexedFieldArray =
  field :: "nat h5field"
  index_name :: string
  values_name :: string
  chunksize :: nat
  raw_values :: "nat list"
  raw_indices :: "nat list"
  accumulated :: nat
  index_index :: nat
  value_index :: nat

text \<open>
  \<open>__init__\<close>: \<open>np.zeros(chunksize)\<close> raises on a negative size (ValueError) and on a
  size that is no integer (TypeError).
\<close>

definition WriteableIndexedFieldArray_init ::
  "nat h5field \<Rightarrow> string \<Rightarrow> string \<Rightarrow> error + WriteableIndexedFieldArray" where
  "WriteableIndexedFieldArray_init fld iname vname =
     bind_err (h5_dataset fld iname) (\<lambda>index_dataset.
     bind_err (h5_dataset fld vname) (\<lambda>values_dataset.
       (case attrs fld ''chunksize'' of
          None \<Rightarrow> Inl KeyError
        | Some (StrAttr t) \<Rightarrow> Inl TypeError
        | Some (IntAttr c) \<Rightarrow>
            if c < 0 then Inl ValueError
            else Inr \<lparr>field = fld, index_name = iname, values_name = vname,
                      chunksize = nat c,
                      raw_values = replicate (nat c) 0,
                      raw_indices = replicate (nat c) 0,
                      accumulated = (if length index_dataset \<noteq> 0 then last index_dataset else 0),
                      index_index = 0, value_index = 0\<rparr>)))"

definition WriteableIndexedFieldArray_len :: "WriteableIndexedFieldArray \<Rightarrow> error + int" where
  "WriteableIndexedFieldArray_len self =
     bind_err (h5_dataset (field self) (index_name self)) (\<lambda>index_dataset.
       Inr (int (length index_dataset) - 1))"

text \<open>\<open>__getitem__\<close> with an integer item, for a row position \<open>item \<ge> 0\<close>.\<close>

definition WriteableIndexedFieldArray_getitem ::
  "WriteableIndexedFieldArray \<Rightarrow> nat \<Rightarrow> error + string" where
  "WriteableIndexedFieldArray_getitem self item =
     bind_err (h5_dataset (field self) (index_name self)) (\<lambda>index_dataset.
     bind_err (h5_dataset (field self) (values_name self)) (\<lambda>values_dataset.
       if int item \<ge> int (length index_dataset) - 1 then Inl ValueError
       else
         let start = index_dataset ! item; stop = index_dataset ! (item + 1)
         in if start = stop then Inr []
            else Inr (decode (slice values_dataset start stop))))"

text \<open>
  The inner loop of \<open>write_part\<close>, over the bytes of one string: store the byte in the
  buffer, write the buffer out when it is full, count the byte.
\<close>

fun write_bytes ::
  "WriteableIndexedFieldArray \<Rightarrow> nat list \<Rightarrow> error + WriteableIndexedFieldArray" where
  "write_bytes self [] = Inr self"
| "write_bytes self (v # evalue) =
     (if value_index self < length (raw_values self) then
        let self = self\<lparr>raw_values := (raw_values self)[value_index self := v]\<rparr>;
            self = self\<lparr>value_index := value_index self + 1\<rparr>;
            self = (if value_index self = chunksize self
                    then self\<lparr>field := DataWriter_write (field self) (values_name self)
                                          (raw_values self) (value_index self),
                              value_index := 0\<rparr>
                    else self);
            self = self\<lparr>accumulated := accumulated self + 1\<rparr>
        in write_bytes self evalue
      else Inl IndexError)"

text \<open>
  The block that \<open>write_part\<close> (on a full index buffer) and \<open>complete\<close> (on a non-empty
  one) share: the index dataset gets its leading 0 when it is still empty, then the
  buffered offsets.
\<close>

definition write_raw_indices ::
  "WriteableIndexedFieldArray \<Rightarrow> error + WriteableIndexedFieldArray" where
  "write_raw_indices self =
     bind_err (h5_dataset (field self) ''index'') (\<lambda>index_dataset.
       let self = (if length index_dataset = 0
                   then self\<lparr>field := DataWriter_write (field self) (index_name self) [0] 1\<rparr>
                   else self);
           self = self\<lparr>field := DataWriter_write (field self) (index_name self)
                                  (raw_indices self) (index_index self)\<rparr>
       in Inr (self\<lparr>index_index := 0\<rparr>))"

fun WriteableIndexedFieldArray_write_part ::
  "WriteableIndexedFieldArray \<Rightarrow> string list \<Rightarrow> error + WriteableIndexedFieldArray" where
  "WriteableIndexedFieldArray_write_part self [] = Inr self"
| "WriteableIndexedFieldArray_write_part self (s # part) =
     bind_err (write_bytes self (encode s)) (\<lambda>self.
       if index_index self < length (raw_indices self) then
         let self = self\<lparr>raw_indices := (raw_indices self)[index_index self := accumulated self]\<rparr>;
             self = self\<lparr>index_index := index_index self + 1\<rparr>
         in bind_err (if index_index self = chunksize self then write_raw_indices self
                      else Inr self)
              (\<lambda>self. WriteableIndexedFieldArray_write_part self part)
       else Inl IndexError)"

definition WriteableIndexedFieldArray_complete ::
  "WriteableIndexedFieldArray \<Rightarrow> error + WriteableIndexedFieldArray" where
  "WriteableIndexedFieldArray_complete self =
     (let self = (if value_index self \<noteq> 0
                  then self\<lparr>field := DataWriter_write (field self) (values_name self)
                                        (raw_values self) (value_index self),
                            value_index := 0\<rparr>
                  else self)
      in if index_index self \<noteq> 0 then write_raw_indices self else Inr self)"

definition WriteableIndexedFieldArray_write ::
  "WriteableIndexedFieldArray \<Rightarrow> string list \<Rightarrow> error + WriteableIndexedFieldArray" where
  "WriteableIndexedFieldArray_write self part =
     bind_err (WriteableIndexedFieldArray_write_part self part)
       WriteableIndexedFieldArray_complete"

text \<open>
  A sequence of \<open>write_part\<close> and \<open>complete\<close> calls on one array, stopping at the first
  exception.
\<close>

datatype writer_call = WritePart "string list" | Complete

fun run_calls ::
  "WriteableIndexedFieldArray \<Rightarrow> writer_call list \<Rightarrow> error + WriteableIndexedFieldArray" where
  "run_calls self [] = Inr self"
| "run_calls self (WritePart part # calls) =
     bind_err (WriteableIndexedFieldArray_write_part self part) (\<lambda>self. run_calls self calls)"
| "run_calls self (Complete # calls) =
     bind_err (WriteableIndexedFieldArray_complete self) (\<lambda>self. run_calls self calls)"

text \<open>
  A new indexed string field in an empty group, and the writable array over it
  (\<open>IndexedStringField.data\<close> of a write-enabled field:
  \<open>WriteableIndexedFieldArray(self._field, 'index', 'values')\<close>).
\<close>

definition new_indexed_string_array ::
  "session \<Rightarrow> string \<Rightarrow> string option \<Rightarrow> int option \<Rightarrow> error + WriteableIndexedFieldArray" where
  "new_indexed_string_array s name timestamp csz =
     bind_err (indexed_string_field_constructor s Map.empty name timestamp csz) (\<lambda>grp.
       case grp name of
         None \<Rightarrow> Inl KeyError
       | Some fld \<Rightarrow> WriteableIndexedFieldArray_init fld ''index'' ''values'')"

text \<open>Reading the rows \<open>0 .. len - 1\<close> one by one.\<close>

definition read_rows :: "WriteableIndexedFieldArray \<Rightarrow> (error + string) list" where
  "read_rows self =
     (case WriteableIndexedFieldArray_len self of
        Inl e \<Rightarrow> []
      | Inr n \<Rightarrow> map (WriteableIndexedFieldArray_getitem self) [0 ..< nat n])"

subsection \<open>What the writer has staged\<close>

text \<open>
  The abstraction used in the proofs: the bytes written so far are the values dataset
  followed by the filled part of the value buffer; the offsets written so far are the
  index dataset (with the leading 0 it gets at its first write) followed by the filled
  part of the index buffer.
\<close>

definition values_dataset :: "WriteableIndexedFieldArray \<Rightarrow> nat list" where
  "values_dataset self = (case dsets (field self) ''values'' of None \<Rightarrow> [] | Some xs \<Rightarrow> xs)"

definition index_dataset :: "WriteableIndexedFieldArray \<Rightarrow> nat list" where
  "index_dataset self = (case dsets (field self) ''index'' of None \<Rightarrow> [] | Some xs \<Rightarrow> xs)"

definition staged_values :: "WriteableIndexedFieldArray \<Rightarrow> nat list" where
  "staged_values self = values_dataset self @ take (value_index self) (raw_values self)"

definition staged_index :: "WriteableIndexedFieldArray \<Rightarrow> nat list" where
  "staged_index self =
     (if index_dataset self = [] then [0] else index_dataset self)
       @ take (index_index self) (raw_indices self)"

definition writer_wf :: "WriteableIndexedFieldArray \<Rightarrow> bool" where
  "writer_wf self \<longleftrightarrow>
     index_name self = ''index'' \<and> values_name self = ''values'' \<and>
     dsets (field self) ''index'' \<noteq> None \<and> dsets (field self) ''values'' \<noteq> None \<and>
     length (raw_values self) = chunksize self \<and> length (raw_indices self) = chunksize self \<and>
     value_index self < chunksize self \<and> index_index self < chunksize self \<and>
     length (index_dataset self) \<noteq> 1"

text \<open>The offsets of the strings of a part, from the offset accumulated before it.\<close>

fun offsets :: "nat \<Rightarrow> 'a list list \<Rightarrow> nat list" where
  "offsets acc [] = []"
| "offsets acc (s # part) = (acc + length s) # offsets (acc + length s) part"

definition writer_holds :: "string list \<Rightarrow> WriteableIndexedFieldArray \<Rightarrow> bool" where
  "writer_holds ss self \<longleftrightarrow>
     writer_wf self \<and>
     staged_values self = concat (map encode ss) \<and>
     staged_index self = 0 # offsets 0 ss \<and>
     accumulated self = length (concat ss)"

fun strings_of :: "writer_call list \<Rightarrow> string list" where
  "strings_of [] = []"
| "strings_of (WritePart part # calls) = part @ strings_of calls"
| "strings_of (Complete # calls) = strings_of calls"

subsection \<open>The writer keeps what it has staged\<close>

lemma length_encode [simp]: "length (encode s) = length s"
  by (simp add: encode_def)

lemma decode_encode [simp]: "decode (encode s) = s"
  by (simp add: encode_def decode_def comp_def)

lemma write_bytes_step:
  assumes "writer_wf self"
  shows "\<exists>self'. write_bytes self bs = Inr self' \<and> writer_wf self' \<and>
           staged_values self' = staged_values self @ bs \<and>
           accumulated self' = accumulated self + length bs \<and>
           dsets (field self') ''index'' = dsets (field self) ''index'' \<and>
           raw_indices self' = raw_indices self \<and>
           index_index self' = index_index self \<and>
           chunksize self' = chunksize self"
  using assms
proof (induction bs arbitrary: self)
  case Nil
  then show ?case by simp
next
  case (Cons v bs)
  let ?s1 = "self\<lparr>raw_values := (raw_values self)[value_index self := v],
                   value_index := value_index self + 1, accumulated := accumulated self + 1\<rparr>"
  let ?s2 = "self\<lparr>raw_values := (raw_values self)[value_index self := v],
                   field := DataWriter_write (field self) ''values''
                              ((raw_values self)[value_index self := v]) (value_index self + 1),
                   value_index := 0, accumulated := accumulated self + 1\<rparr>"
  from Cons.prems have wf: "value_index self < length (raw_values self)"
     "length (raw_values self) = chunksize self" "values_name self = ''values''"
    by (simp_all add: writer_wf_def)
  have tk: "take (Suc (value_index self)) ((raw_values self)[value_index self := v])
            = take (value_index self) (raw_values self) @ [v]"
    using wf(1) by (simp add: take_Suc_conv_app_nth)
  show ?case
  proof (cases "value_index self + 1 = chunksize self")
    case True
    have eq: "write_bytes self (v # bs) = write_bytes ?s2 bs"
      using wf True by (simp add: Let_def)
    have wf2: "writer_wf ?s2"
      using Cons.prems True
      by (auto simp: writer_wf_def DataWriter_write_def index_dataset_def)
    have sv: "staged_values ?s2 = staged_values self @ [v]"
      using Cons.prems True tk
      by (auto simp: staged_values_def values_dataset_def DataWriter_write_def writer_wf_def)
    from Cons.IH [OF wf2] obtain self' where
      "write_bytes ?s2 bs = Inr self'" "writer_wf self'"
      "staged_values self' = staged_values ?s2 @ bs"
      "accumulated self' = accumulated ?s2 + length bs"
      "dsets (field self') ''index'' = dsets (field ?s2) ''index''"
      "raw_indices self' = raw_indices ?s2" "index_index self' = index_index ?s2"
      "chunksize self' = chunksize ?s2"
      by blast
    then show ?thesis
      using eq sv by (simp add: DataWriter_write_def)
  next
    case False
    have eq: "write_bytes self (v # bs) = write_bytes ?s1 bs"
      using wf False by (simp add: Let_def)
    have wf1: "writer_wf ?s1"
      using Cons.prems False
      by (auto simp: writer_wf_def index_dataset_def)
    have sv: "staged_values ?s1 = staged_values self @ [v]"
      using tk by (simp add: staged_values_def values_dataset_def)
    from Cons.IH [OF wf1] obtain self' where
      "write_bytes ?s1 bs = Inr self'" "writer_wf self'"
      "staged_values self' = staged_values ?s1 @ bs"
      "accumulated self' = accumulated ?s1 + length bs"
      "dsets (field self') ''index'' = dsets (field ?s1) ''index''"
      "raw_indices self' = raw_indices ?s1" "index_index self' = index_index ?s1"
      "chunksize self' = chunksize ?s1"
      by blast
    then show ?thesis
      using eq sv by simp
  qed
qed


lemma write_raw_indices_eq:
  assumes "index_name self = ''index''" and "dsets (field self) ''index'' = Some ds"
  shows "write_raw_indices self =
           Inr (self\<lparr>field := (field self)\<lparr>dsets := (dsets (field self))(''index'' \<mapsto>
                       (if ds = [] then [0] else ds) @ take (index_index self) (raw_indices self))\<rparr>,
                     index_index := 0\<rparr>)"
  using assms
  by (simp add: write_raw_indices_def h5_dataset_def DataWriter_write_def Let_def)

lemma append_index_step:
  assumes wf: "writer_wf self"
  defines "s2 \<equiv> self\<lparr>raw_indices := (raw_indices self)[index_index self := accumulated self],
                      index_index := Suc (index_index self)\<rparr>"
  shows "\<exists>s3. (if index_index s2 = chunksize s2 then write_raw_indices s2 else Inr s2) = Inr s3 \<and>
           writer_wf s3 \<and> staged_values s3 = staged_values self \<and>
           staged_index s3 = staged_index self @ [accumulated self] \<and>
           accumulated s3 = accumulated self \<and> chunksize s3 = chunksize self"
proof -
  from wf obtain ds where ds: "dsets (field self) ''index'' = Some ds"
    by (auto simp: writer_wf_def)
  from wf have ii: "index_index self < length (raw_indices self)"
    and len: "length (raw_indices self) = chunksize self"
    and nm: "index_name self = ''index''"
    and l1: "length ds \<noteq> 1"
    using ds by (simp_all add: writer_wf_def index_dataset_def)
  have tk: "take (Suc (index_index self)) ((raw_indices self)[index_index self := accumulated self])
            = take (index_index self) (raw_indices self) @ [accumulated self]"
    using ii by (simp add: take_Suc_conv_app_nth)
  have sv2: "staged_values s2 = staged_values self"
    by (simp add: s2_def staged_values_def values_dataset_def)
  have si2: "staged_index s2 = staged_index self @ [accumulated self]"
    using tk by (simp add: s2_def staged_index_def index_dataset_def)
  show ?thesis
  proof (cases "Suc (index_index self) = chunksize self")
    case True
    let ?s3 = "s2\<lparr>field := (field s2)\<lparr>dsets := (dsets (field s2))(''index'' \<mapsto>
                       (if ds = [] then [0] else ds) @ take (index_index s2) (raw_indices s2))\<rparr>,
                     index_index := 0\<rparr>"
    have w: "write_raw_indices s2 = Inr ?s3"
      by (rule write_raw_indices_eq) (simp_all add: s2_def nm ds)
    have c: "index_index s2 = chunksize s2"
      using True by (simp add: s2_def)
    have idx3: "index_dataset ?s3 = staged_index s2"
      using ds by (simp add: index_dataset_def staged_index_def s2_def)
    have "length (staged_index s2) \<noteq> 1"
      unfolding si2 by (simp add: staged_index_def)
    then have wf3: "writer_wf ?s3"
      using wf True idx3 unfolding writer_wf_def
      by (simp add: s2_def)
    have sv3: "staged_values ?s3 = staged_values s2"
      by (simp add: staged_values_def values_dataset_def)
    have si3: "staged_index ?s3 = staged_index s2"
      unfolding staged_index_def [of ?s3] idx3
      by (simp add: staged_index_def)
    have "accumulated ?s3 = accumulated self" "chunksize ?s3 = chunksize self"
      by (simp_all add: s2_def)
    then show ?thesis
      using w c wf3 sv3 si3 sv2 si2 by (intro exI [of _ ?s3]) simp
  next
    case False
    then have c: "index_index s2 \<noteq> chunksize s2"
      by (simp add: s2_def)
    have wf2: "writer_wf s2"
      using wf False unfolding writer_wf_def
      by (simp add: s2_def index_dataset_def)
    have "accumulated s2 = accumulated self" "chunksize s2 = chunksize self"
      by (simp_all add: s2_def)
    then show ?thesis
      using c wf2 sv2 si2 by (intro exI [of _ s2]) simp
  qed
qed

lemma write_part_step:
  assumes "writer_wf self"
  shows "\<exists>self'. WriteableIndexedFieldArray_write_part self part = Inr self' \<and> writer_wf self' \<and>
           staged_values self' = staged_values self @ concat (map encode part) \<and>
           staged_index self' = staged_index self @ offsets (accumulated self) part \<and>
           accumulated self' = accumulated self + length (concat part) \<and>
           chunksize self' = chunksize self"
  using assms
proof (induction part arbitrary: self)
  case Nil
  then show ?case by simp
next
  case (Cons s part)
  from write_bytes_step [OF Cons.prems, of "encode s"] obtain s1 where
    s1: "write_bytes self (encode s) = Inr s1" "writer_wf s1"
        "staged_values s1 = staged_values self @ encode s"
        "accumulated s1 = accumulated self + length s"
        "dsets (field s1) ''index'' = dsets (field self) ''index''"
        "raw_indices s1 = raw_indices self" "index_index s1 = index_index self"
        "chunksize s1 = chunksize self"
    by auto
  have si1: "staged_index s1 = staged_index self"
    using s1 by (simp add: staged_index_def index_dataset_def)
  define s2 where "s2 = s1\<lparr>raw_indices := (raw_indices s1)[index_index s1 := accumulated s1],
                             index_index := Suc (index_index s1)\<rparr>"
  from append_index_step [OF s1(2)] obtain s3 where
    s3: "(if index_index s2 = chunksize s2 then write_raw_indices s2 else Inr s2) = Inr s3"
        "writer_wf s3" "staged_values s3 = staged_values s1"
        "staged_index s3 = staged_index s1 @ [accumulated s1]"
        "accumulated s3 = accumulated s1" "chunksize s3 = chunksize s1"
    unfolding s2_def by blast
  from s1(2) have ii: "index_index s1 < length (raw_indices s1)"
    by (simp add: writer_wf_def)
  have "WriteableIndexedFieldArray_write_part self (s # part)
          = bind_err (if index_index s2 = chunksize s2 then write_raw_indices s2 else Inr s2)
              (\<lambda>self. WriteableIndexedFieldArray_write_part self part)"
    using s1(1) ii by (simp add: Let_def s2_def)
  then have eq: "WriteableIndexedFieldArray_write_part self (s # part)
            = WriteableIndexedFieldArray_write_part s3 part"
    by (simp only: s3(1) bind_err.simps)
  from Cons.IH [OF s3(2)] obtain self' where
    "WriteableIndexedFieldArray_write_part s3 part = Inr self'" "writer_wf self'"
    "staged_values self' = staged_values s3 @ concat (map encode part)"
    "staged_index self' = staged_index s3 @ offsets (accumulated s3) part"
    "accumulated self' = accumulated s3 + length (concat part)"
    "chunksize self' = chunksize s3"
    by blast
  then show ?case
    using eq s1 s3 si1 by simp
qed

lemma flush_values_step:
  assumes wf: "writer_wf self"
  defines "s1 \<equiv> (if value_index self \<noteq> 0
             then self\<lparr>field := DataWriter_write (field self) (values_name self)
                                   (raw_values self) (value_index self),
                       value_index := 0\<rparr>
             else self)"
  shows "writer_wf s1 \<and> value_index s1 = 0 \<and> staged_values s1 = staged_values self \<and>
         staged_index s1 = staged_index self \<and> index_index s1 = index_index self \<and>
         accumulated s1 = accumulated self \<and> chunksize s1 = chunksize self"
proof (cases "value_index self = 0")
  case True
  then have "s1 = self" by (simp add: s1_def)
  then show ?thesis using wf True by simp
next
  case False
  from wf obtain vs where vs: "dsets (field self) ''values'' = Some vs"
    and nm: "values_name self = ''values''"
    by (auto simp: writer_wf_def)
  have e: "s1 = self\<lparr>field := (field self)\<lparr>dsets := (dsets (field self))(''values'' \<mapsto>
                       vs @ take (value_index self) (raw_values self))\<rparr>, value_index := 0\<rparr>"
    using False vs nm by (simp add: s1_def DataWriter_write_def)
  have "writer_wf s1"
    using wf unfolding writer_wf_def e by (simp add: index_dataset_def)
  moreover have "staged_values s1 = staged_values self"
    using vs unfolding e by (simp add: staged_values_def values_dataset_def)
  moreover have "staged_index s1 = staged_index self"
    unfolding e by (simp add: staged_index_def index_dataset_def)
  ultimately show ?thesis
    unfolding e by simp
qed

lemma complete_step:
  assumes wf: "writer_wf self"
  shows "\<exists>self'. WriteableIndexedFieldArray_complete self = Inr self' \<and> writer_wf self' \<and>
           staged_values self' = staged_values self \<and>
           staged_index self' = staged_index self \<and>
           accumulated self' = accumulated self \<and> chunksize self' = chunksize self \<and>
           value_index self' = 0 \<and> index_index self' = 0"
proof -
  define s1 where "s1 = (if value_index self \<noteq> 0
             then self\<lparr>field := DataWriter_write (field self) (values_name self)
                                   (raw_values self) (value_index self),
                       value_index := 0\<rparr>
             else self)"
  from flush_values_step [OF wf] have
    wf1: "writer_wf s1" and v1: "value_index s1 = 0"
    and sv1: "staged_values s1 = staged_values self"
    and si1: "staged_index s1 = staged_index self"
    and ii1: "index_index s1 = index_index self"
    and a1: "accumulated s1 = accumulated self"
    and c1: "chunksize s1 = chunksize self"
    unfolding s1_def by simp_all
  from wf1 obtain ds where ds1: "dsets (field s1) ''index'' = Some ds"
    and nm1: "index_name s1 = ''index''"
    by (auto simp: writer_wf_def)
  have eq: "WriteableIndexedFieldArray_complete self
            = (if index_index s1 \<noteq> 0 then write_raw_indices s1 else Inr s1)"
    by (simp add: WriteableIndexedFieldArray_complete_def Let_def s1_def)
  show ?thesis
  proof (cases "index_index s1 = 0")
    case True
    then show ?thesis
      using eq wf1 v1 sv1 si1 a1 c1 by simp
  next
    case False
    let ?s2 = "s1\<lparr>field := (field s1)\<lparr>dsets := (dsets (field s1))(''index'' \<mapsto>
                       (if ds = [] then [0] else ds) @ take (index_index s1) (raw_indices s1))\<rparr>,
                     index_index := 0\<rparr>"
    have w: "write_raw_indices s1 = Inr ?s2"
      by (rule write_raw_indices_eq [OF nm1 ds1])
    have c: "WriteableIndexedFieldArray_complete self = Inr ?s2"
      using eq False w by simp
    have idx2: "index_dataset ?s2 = staged_index s1"
      using ds1 by (simp add: index_dataset_def staged_index_def)
    from wf1 have "index_index s1 < length (raw_indices s1)"
      by (simp add: writer_wf_def)
    then have "length (staged_index s1) \<noteq> 1"
      using False by (cases "index_dataset s1") (simp_all add: staged_index_def)
    then have "writer_wf ?s2"
      using wf1 False idx2 unfolding writer_wf_def by simp
    moreover have "staged_values ?s2 = staged_values s1"
      by (simp add: staged_values_def values_dataset_def)
    moreover have "staged_index ?s2 = staged_index s1"
      unfolding staged_index_def [of ?s2] idx2
      by (simp add: staged_index_def)
    moreover have "accumulated ?s2 = accumulated s1" "chunksize ?s2 = chunksize s1"
       "value_index ?s2 = value_index s1" "index_index ?s2 = 0"
      by simp_all
    ultimately show ?thesis
      using c sv1 si1 a1 c1 v1 by (intro exI [of _ ?s2]) simp
  qed
qed

lemma offsets_append:
  "offsets acc (xs @ ys) = offsets acc xs @ offsets (acc + length (concat xs)) ys"
  by (induction xs arbitrary: acc) (simp_all add: add.assoc)

lemma length_offsets [simp]: "length (offsets acc ss) = length ss"
  by (induction ss arbitrary: acc) simp_all

lemma offsets_nth:
  "i < length ss \<Longrightarrow> (acc # offsets acc ss) ! Suc i = (acc # offsets acc ss) ! i + length (ss ! i)"
proof (induction ss arbitrary: acc i)
  case Nil
  then show ?case by simp
next
  case (Cons s ss)
  show ?case
  proof (cases i)
    case 0
    then show ?thesis by simp
  next
    case (Suc j)
    with Cons.prems have "j < length ss" by simp
    from Cons.IH [OF this, of "acc + length s"] show ?thesis
      using Suc by simp
  qed
qed

lemma offsets_nth_start:
  "i \<le> length ss \<Longrightarrow> (acc # offsets acc ss) ! i = acc + length (concat (take i ss))"
proof (induction i)
  case 0
  then show ?case by simp
next
  case (Suc i)
  then have i: "i < length ss" by simp
  from offsets_nth [OF i, of acc] Suc.IH i show ?case
    by (simp add: take_Suc_conv_app_nth)
qed



lemma slice_concat_encode:
  assumes "i < length ss"
  shows "slice (concat (map encode ss)) (length (concat (take i ss)))
           (length (concat (take i ss)) + length (ss ! i)) = encode (ss ! i)"
proof -
  have "ss = take i ss @ ss ! i # drop (Suc i) ss"
    using assms by (simp add: id_take_nth_drop)
  then have "concat (map encode ss)
      = concat (map encode (take i ss)) @ encode (ss ! i) @ concat (map encode (drop (Suc i) ss))"
    by (metis concat.simps(2) concat_append list.simps(9) map_append)
  moreover have "length (concat (map encode (take i ss))) = length (concat (take i ss))"
    by (simp add: length_concat comp_def)
  ultimately show ?thesis
    by (simp add: slice_def)
qed

lemma new_array_holds:
  assumes "0 < (case csz of None \<Rightarrow> session_chunksize s | Some c \<Rightarrow> c)"
  shows "\<exists>a. new_indexed_string_array s name ts csz = Inr a \<and> writer_holds [] a \<and>
             value_index a = 0 \<and> index_index a = 0 \<and>
             dsets (field a) ''index'' = Some [] \<and> dsets (field a) ''values'' = Some [] \<and>
             chunksize a = nat (case csz of None \<Rightarrow> session_chunksize s | Some c \<Rightarrow> c)"
  using assms
  by (simp add: new_indexed_string_array_def indexed_string_field_constructor_def
      base_field_contructor_def Let_def DataWriter_write_def
      WriteableIndexedFieldArray_init_def h5_dataset_def writer_holds_def writer_wf_def
      staged_values_def staged_index_def values_dataset_def index_dataset_def)

lemma write_part_holds:
  assumes "writer_holds ss self"
  shows "\<exists>self'. WriteableIndexedFieldArray_write_part self part = Inr self' \<and>
           writer_holds (ss @ part) self' \<and> chunksize self' = chunksize self"
proof -
  from assms have wf: "writer_wf self" by (simp add: writer_holds_def)
  from write_part_step [OF wf, of part] obtain self' where
    "WriteableIndexedFieldArray_write_part self part = Inr self'" "writer_wf self'"
    "staged_values self' = staged_values self @ concat (map encode part)"
    "staged_index self' = staged_index self @ offsets (accumulated self) part"
    "accumulated self' = accumulated self + length (concat part)"
    "chunksize self' = chunksize self"
    by blast
  then show ?thesis
    using assms by (simp add: writer_holds_def offsets_append)
qed

lemma complete_holds:
  assumes "writer_holds ss self"
  shows "\<exists>self'. WriteableIndexedFieldArray_complete self = Inr self' \<and>
           writer_holds ss self' \<and> chunksize self' = chunksize self \<and>
           value_index self' = 0 \<and> index_index self' = 0"
proof -
  from assms have wf: "writer_wf self" by (simp add: writer_holds_def)
  from complete_step [OF wf] assms show ?thesis
    by (auto simp: writer_holds_def)
qed

lemma run_calls_holds:
  assumes "writer_holds ss self"
  shows "\<exists>self'. run_calls self calls = Inr self' \<and> writer_holds (ss @ strings_of calls) self'"
  using assms
proof (induction calls arbitrary: ss self)
  case Nil
  then show ?case by simp
next
  case (Cons c calls)
  show ?case
  proof (cases c)
    case (WritePart part)
    from write_part_holds [OF Cons.prems, of part] obtain s1 where
      s1: "WriteableIndexedFieldArray_write_part self part = Inr s1" "writer_holds (ss @ part) s1"
      by blast
    from Cons.IH [OF s1(2)] show ?thesis
      using WritePart s1(1) by simp
  next
    case Complete
    from complete_holds [OF Cons.prems] obtain s1 where
      s1: "WriteableIndexedFieldArray_complete self = Inr s1" "writer_holds ss s1"
      by blast
    from Cons.IH [OF s1(2)] show ?thesis
      using Complete s1(1) by simp
  qed
qed

lemma run_calls_append:
  "run_calls self (xs @ ys) = bind_err (run_calls self xs) (\<lambda>self. run_calls self ys)"
proof (induction xs arbitrary: self)
  case Nil
  then show ?case by simp
next
  case (Cons c xs)
  show ?case
  proof (cases c)
    case (WritePart part)
    then show ?thesis
      using Cons.IH by (cases "WriteableIndexedFieldArray_write_part self part") simp_all
  next
    case Complete
    then show ?thesis
      using Cons.IH by (cases "WriteableIndexedFieldArray_complete self") simp_all
  qed
qed

lemma flushed_datasets:
  assumes h: "writer_holds ss self" and v: "value_index self = 0" and i: "index_index self = 0"
  shows "dsets (field self) ''values'' = Some (concat (map encode ss))"
    and "dsets (field self) ''index'' = Some (if ss = [] then [] else 0 # offsets 0 ss)"
proof -
  from h have wf: "writer_wf self"
    and sv: "staged_values self = concat (map encode ss)"
    and si: "staged_index self = 0 # offsets 0 ss"
    by (simp_all add: writer_holds_def)
  from wf obtain vs ds where vs: "dsets (field self) ''values'' = Some vs"
    and ds: "dsets (field self) ''index'' = Some ds" and l1: "length ds \<noteq> 1"
    by (auto simp: writer_wf_def index_dataset_def)
  from sv v vs show "dsets (field self) ''values'' = Some (concat (map encode ss))"
    by (simp add: staged_values_def values_dataset_def)
  from ds have idx: "index_dataset self = ds"
    by (simp add: index_dataset_def)
  from si i have e: "(if ds = [] then [0] else ds) = 0 # offsets 0 ss"
    unfolding staged_index_def idx by simp
  show "dsets (field self) ''index'' = Some (if ss = [] then [] else 0 # offsets 0 ss)"
  proof (cases "ds = []")
    case True
    with e have "offsets 0 ss = []" by simp
    then have "length ss = 0" by (metis length_offsets list.size(3))
    then show ?thesis using True ds by simp
  next
    case False
    with e have d: "ds = 0 # offsets 0 ss" by simp
    with l1 have "ss \<noteq> []" by auto
    then show ?thesis using d ds by simp
  qed
qed

lemma flushed_len:
  assumes h: "writer_holds ss self" and v: "value_index self = 0" and i: "index_index self = 0"
  shows "WriteableIndexedFieldArray_len self = Inr (if ss = [] then - 1 else int (length ss))"
proof -
  from h have nm: "index_name self = ''index''"
    by (simp add: writer_holds_def writer_wf_def)
  from flushed_datasets(2) [OF h v i] nm show ?thesis
    by (simp add: WriteableIndexedFieldArray_len_def h5_dataset_def)
qed

lemma flushed_getitem:
  assumes h: "writer_holds ss self" and v: "value_index self = 0" and i: "index_index self = 0"
    and k: "k < length ss"
  shows "WriteableIndexedFieldArray_getitem self k = Inr (ss ! k)"
proof -
  from h have nm: "index_name self = ''index''" "values_name self = ''values''"
    by (simp_all add: writer_holds_def writer_wf_def)
  from k have ne: "ss \<noteq> []" by auto
  note d = flushed_datasets [OF h v i]
  have a: "(0 # offsets 0 ss) ! k = length (concat (take k ss))"
    using offsets_nth_start [of k ss 0] k by simp
  have b: "(0 # offsets 0 ss) ! Suc k = length (concat (take k ss)) + length (ss ! k)"
    using offsets_nth [OF k, of 0] a by simp
  show ?thesis
  proof (cases "length (ss ! k) = 0")
    case True
    then show ?thesis
      using d nm ne k a b
      by (simp add: WriteableIndexedFieldArray_getitem_def h5_dataset_def Let_def)
  next
    case False
    then show ?thesis
      using d nm ne k a b slice_concat_encode [OF k]
      by (simp add: WriteableIndexedFieldArray_getitem_def h5_dataset_def Let_def)
  qed
qed

lemma flushed_read_rows:
  assumes h: "writer_holds ss self" and v: "value_index self = 0" and i: "index_index self = 0"
  shows "read_rows self = map Inr ss"
proof -
  have "map (WriteableIndexedFieldArray_getitem self) [0 ..< length ss] = map Inr ss"
    by (rule nth_equalityI) (simp_all add: flushed_getitem [OF h v i])
  then show ?thesis
    using flushed_len [OF h v i] by (simp add: read_rows_def)
qed

subsection \<open>Round trip and invariants\<close>

text \<open>
  C2. Round trip: on a new indexed string field with a positive chunk size, writing a
  sequence of strings \<open>S\<close> with \<open>write\<close> (\<open>write_part\<close> followed by \<open>complete\<close>) succeeds,
  and reading the field back row by row gives \<open>S\<close> exactly. \<open>S\<close> is any sequence: it may
  hold the empty string, and strings longer than the chunk size, whose bytes are written
  out over several flushes of the buffer.
\<close>

theorem indexed_string_round_trip:
  assumes "0 < (case csz of None \<Rightarrow> session_chunksize s | Some c \<Rightarrow> c)"
  shows "\<exists>a a'. new_indexed_string_array s name ts csz = Inr a \<and>
           WriteableIndexedFieldArray_write a S = Inr a' \<and>
           read_rows a' = map Inr S \<and>
           (\<forall>i < length S. WriteableIndexedFieldArray_getitem a' i = Inr (S ! i))"
proof -
  from new_array_holds [OF assms] obtain a where
    a: "new_indexed_string_array s name ts csz = Inr a" "writer_holds [] a"
    by blast
  from write_part_holds [OF a(2), of S] obtain a1 where
    a1: "WriteableIndexedFieldArray_write_part a S = Inr a1" "writer_holds S a1"
    by auto
  from complete_holds [OF a1(2)] obtain a' where
    a': "WriteableIndexedFieldArray_complete a1 = Inr a'" "writer_holds S a'"
        "value_index a' = 0" "index_index a' = 0"
    by blast
  have w: "WriteableIndexedFieldArray_write a S = Inr a'"
    using a1(1) a'(1) by (simp add: WriteableIndexedFieldArray_write_def)
  have "read_rows a' = map Inr S"
    by (rule flushed_read_rows [OF a'(2-4)])
  moreover have "\<forall>i < length S. WriteableIndexedFieldArray_getitem a' i = Inr (S ! i)"
    using flushed_getitem [OF a'(2-4)] by blast
  ultimately show ?thesis
    using a(1) w by blast
qed

theorem indexed_string_round_trip_witness:
  "(0::int) < 4 \<and>
   map_sum id read_rows
     (bind_err (new_indexed_string_array \<lparr>session_chunksize = 4\<rparr> ''notes'' None None)
        (\<lambda>a. WriteableIndexedFieldArray_write a [''foo'', [], ''hello world'']))
     = Inr [Inr ''foo'', Inr [], Inr ''hello world'']"
proof -
  have h: "0 < (case None of None \<Rightarrow> session_chunksize \<lparr>session_chunksize = 4\<rparr> | Some c \<Rightarrow> c)"
    by simp
  from indexed_string_round_trip [OF h, of "''notes''" None "[''foo'', [], ''hello world'']"]
  obtain a a' where
    "new_indexed_string_array \<lparr>session_chunksize = 4\<rparr> ''notes'' None None = Inr a"
    "WriteableIndexedFieldArray_write a [''foo'', [], ''hello world''] = Inr a'"
    "read_rows a' = map Inr [''foo'', [], ''hello world'']"
    by blast
  then show ?thesis by simp
qed




section \<open>Fixed-width field arrays and fields (fields.py)\<close>

subsection \<open>ReadOnlyFieldArray and WriteableFieldArray\<close>

text \<open>
  Both wrappers hold the backing group and the name of one dataset; constructing one
  looks the dataset up (\<open>field[dataset_name]\<close>), as each method does here. Every
  mutating method of \<open>ReadOnlyFieldArray\<close> raises \<open>PermissionError\<close> at once.
\<close>

definition FieldArray_len :: "'a h5field \<Rightarrow> string \<Rightarrow> error + nat" where
  "FieldArray_len fld name = bind_err (h5_dataset fld name) (\<lambda>dataset. Inr (length dataset))"

text \<open>\<open>__getitem__\<close> with the whole slice, \<open>data[:]\<close>.\<close>

definition FieldArray_getitem :: "'a h5field \<Rightarrow> string \<Rightarrow> error + 'a list" where
  "FieldArray_getitem fld name = h5_dataset fld name"

definition ReadOnlyFieldArray_setitem :: "'a h5field \<Rightarrow> string \<Rightarrow> 'k \<Rightarrow> 'v \<Rightarrow> error + 'a h5field" where
  "ReadOnlyFieldArray_setitem fld name key v = Inl PermissionError"

definition ReadOnlyFieldArray_clear :: "'a h5field \<Rightarrow> string \<Rightarrow> error + 'a h5field" where
  "ReadOnlyFieldArray_clear fld name = Inl PermissionError"


definition ReadOnlyFieldArray_write :: "'a h5field \<Rightarrow> string \<Rightarrow> 'v \<Rightarrow> error + 'a h5field" where
  "ReadOnlyFieldArray_write fld name part = Inl PermissionError"


text \<open>
  \<open>WriteableFieldArray.__setitem__\<close> with the whole slice, \<open>data[:] = value\<close>, the one
  form the sources use: the dataset takes the value when the lengths agree, a value of
  one entry is broadcast, and any other length cannot be broadcast (h5py: TypeError).
\<close>

definition WriteableFieldArray_setitem :: "'a h5field \<Rightarrow> string \<Rightarrow> 'a list \<Rightarrow> error + 'a h5field" where
  "WriteableFieldArray_setitem fld name v =
     bind_err (h5_dataset fld name) (\<lambda>dataset.
       if length v = length dataset then Inr (fld\<lparr>dsets := (dsets fld)(name \<mapsto> v)\<rparr>)
       else if length v = 1
         then Inr (fld\<lparr>dsets := (dsets fld)(name \<mapsto> replicate (length dataset) (hd v))\<rparr>)
       else Inl TypeError)"

definition WriteableFieldArray_clear :: "'a h5field \<Rightarrow> string \<Rightarrow> error + 'a h5field" where
  "WriteableFieldArray_clear fld name =
     bind_err (h5_dataset fld name) (\<lambda>dataset.
       let fld = DataWriter_clear_dataset fld name;
           fld = DataWriter_write fld name [] 0
       in Inr fld)"

definition WriteableFieldArray_write_part :: "'a h5field \<Rightarrow> string \<Rightarrow> 'a list \<Rightarrow> error + 'a h5field" where
  "WriteableFieldArray_write_part fld name part =
     bind_err (h5_dataset fld name) (\<lambda>dataset.
       Inr (DataWriter_write fld name part (length part)))"

definition WriteableFieldArray_complete :: "'a h5field \<Rightarrow> string \<Rightarrow> error + 'a h5field" where
  "WriteableFieldArray_complete fld name =
     bind_err (h5_dataset fld name) (\<lambda>dataset. Inr (DataWriter_flush fld name))"

definition WriteableFieldArray_write :: "'a h5field \<Rightarrow> string \<Rightarrow> 'a list \<Rightarrow> error + 'a h5field" where
  "WriteableFieldArray_write fld name part =
     bind_err (h5_dataset fld name) (\<lambda>dataset.
       WriteableFieldArray_complete (DataWriter_write fld name part (length part)) name)"

subsection \<open>Field handles over shared backing storage\<close>

text \<open>
  A field object holds a reference to its backing group and the flag \<open>_write_enabled\<close>;
  two handles may refer to the same group (\<open>writeable()\<close> returns a new handle on the
  group of the old one). The store maps the address of a group to its contents.
\<close>

record HDF5Field =
  fid :: nat
  write_enabled :: bool

type_synonym 'a store = "nat \<Rightarrow> 'a h5field"

text \<open>
  \<open>writeable()\<close> constructs a new field object on the same group with
  \<open>write_enabled=True\<close>; the constructor reads the attribute \<open>fieldtype\<close>.
\<close>

definition NumericField_writeable :: "'a store \<Rightarrow> HDF5Field \<Rightarrow> error + HDF5Field" where
  "NumericField_writeable st self =
     (case attrs (st (fid self)) ''fieldtype'' of
        None \<Rightarrow> Inl KeyError
      | Some t \<Rightarrow> Inr \<lparr>fid = fid self, write_enabled = True\<rparr>)"

text \<open>
  The property \<open>data\<close> wraps the dataset \<open>values\<close> in a \<open>WriteableFieldArray\<close> when the
  field is write-enabled and in a \<open>ReadOnlyFieldArray\<close> otherwise; the calls below go
  through it.
\<close>

definition data_len :: "'a store \<Rightarrow> HDF5Field \<Rightarrow> error + nat" where
  "data_len st self = FieldArray_len (st (fid self)) ''values''"

definition data_getitem :: "'a store \<Rightarrow> HDF5Field \<Rightarrow> error + 'a list" where
  "data_getitem st self = FieldArray_getitem (st (fid self)) ''values''"

definition data_setitem :: "'a store \<Rightarrow> HDF5Field \<Rightarrow> 'a list \<Rightarrow> error + 'a store" where
  "data_setitem st self v =
     bind_err (if write_enabled self then WriteableFieldArray_setitem (st (fid self)) ''values'' v
               else ReadOnlyFieldArray_setitem (st (fid self)) ''values'' () v)
       (\<lambda>fld. Inr (st(fid self := fld)))"

definition data_clear :: "'a store \<Rightarrow> HDF5Field \<Rightarrow> error + 'a store" where
  "data_clear st self =
     bind_err (if write_enabled self then WriteableFieldArray_clear (st (fid self)) ''values''
               else ReadOnlyFieldArray_clear (st (fid self)) ''values'')
       (\<lambda>fld. Inr (st(fid self := fld)))"


definition data_write :: "'a store \<Rightarrow> HDF5Field \<Rightarrow> 'a list \<Rightarrow> error + 'a store" where
  "data_write st self part =
     bind_err (if write_enabled self then WriteableFieldArray_write (st (fid self)) ''values'' part
               else ReadOnlyFieldArray_write (st (fid self)) ''values'' part)
       (\<lambda>fld. Inr (st(fid self := fld)))"


subsection \<open>numpy indexing\<close>

text \<open>
  \<open>array[mask]\<close> with a boolean array keeps the entries whose mask is true; a mask of
  another length raises IndexError. \<open>array[indices]\<close> with an integer array gathers; an
  index \<open>i\<close> with \<open>-n \<le> i < 0\<close> counts from the end, as everywhere in numpy, and an
  index outside \<open>[-n, n)\<close> raises IndexError.
\<close>

definition np_mask :: "'a list \<Rightarrow> bool list \<Rightarrow> error + 'a list" where
  "np_mask array filt =
     (if length filt \<noteq> length array then Inl IndexError
      else Inr (map fst (filter snd (zip array filt))))"

definition np_index :: "'a list \<Rightarrow> int \<Rightarrow> 'a" where
  "np_index array i = array ! nat (if i < 0 then i + int (length array) else i)"

definition np_take :: "'a list \<Rightarrow> int list \<Rightarrow> error + 'a list" where
  "np_take array indices =
     (if list_all (\<lambda>i. - int (length array) \<le> i \<and> i < int (length array)) indices
      then Inr (map (np_index array) indices)
      else Inl IndexError)"

subsection \<open>apply_filter and apply_index\<close>

text \<open>
  \<open>NumericField.apply_filter\<close> and \<open>NumericField.apply_index\<close>. The classes
  \<open>FixedStringField\<close>, \<open>CategoricalField\<close> and \<open>TimestampField\<close> have the same two
  bodies, line for line; the element type is a parameter here. The destination is the
  field itself when none is given, and a destination that is not write-enabled is
  replaced by its \<open>writeable()\<close> handle before it is written.
\<close>

definition store_result :: "'a store \<Rightarrow> HDF5Field \<Rightarrow> 'a list \<Rightarrow> error + HDF5Field \<times> 'a store" where
  "store_result st dstfld result =
     bind_err (if \<not> write_enabled dstfld then NumericField_writeable st dstfld else Inr dstfld)
       (\<lambda>dstfld.
     bind_err (data_len st dstfld) (\<lambda>n.
     bind_err (if n = length result then data_setitem st dstfld result
               else bind_err (data_clear st dstfld) (\<lambda>st. data_write st dstfld result))
       (\<lambda>st. Inr (dstfld, st))))"

definition NumericField_apply_filter ::
  "'a store \<Rightarrow> HDF5Field \<Rightarrow> bool list \<Rightarrow> HDF5Field option \<Rightarrow> error + HDF5Field \<times> 'a store" where
  "NumericField_apply_filter st self filter_to_apply dstfld =
     bind_err (data_getitem st self) (\<lambda>array.
     bind_err (np_mask array filter_to_apply) (\<lambda>result.
       let dstfld = (case dstfld of None \<Rightarrow> self | Some d \<Rightarrow> d)
       in store_result st dstfld result))"

definition NumericField_apply_index ::
  "'a store \<Rightarrow> HDF5Field \<Rightarrow> int list \<Rightarrow> HDF5Field option \<Rightarrow> error + HDF5Field \<times> 'a store" where
  "NumericField_apply_index st self index_to_apply dstfld =
     bind_err (data_getitem st self) (\<lambda>array.
     bind_err (np_take array index_to_apply) (\<lambda>result.
       let dstfld = (case dstfld of None \<Rightarrow> self | Some d \<Rightarrow> d)
       in store_result st dstfld result))"

text \<open>
  A field object can exist only if its constructor found the attribute \<open>fieldtype\<close>, and
  its \<open>data\<close> only if the group has the dataset \<open>values\<close>.
\<close>

definition field_ok :: "'a store \<Rightarrow> HDF5Field \<Rightarrow> bool" where
  "field_ok st self \<longleftrightarrow>
     attrs (st (fid self)) ''fieldtype'' \<noteq> None \<and> dsets (st (fid self)) ''values'' \<noteq> None"

text \<open>The destination of \<open>apply_filter\<close> and \<open>apply_index\<close>.\<close>

definition destination :: "HDF5Field \<Rightarrow> HDF5Field option \<Rightarrow> HDF5Field" where
  "destination self dstfld = (case dstfld of None \<Rightarrow> self | Some d \<Rightarrow> d)"

text \<open>A store for the examples: group 0 holds three rows, group 1 is a new numeric field.\<close>

definition example_store :: "int store" where
  "example_store = (\<lambda>a.
     \<lparr>attrs = [''fieldtype'' \<mapsto> StrAttr ''numeric,int32''],
      dsets = [''values'' \<mapsto> (if a = 0 then [10, 20, 30] else [])],
      names = Map.empty\<rparr>)"

subsection \<open>IndexedStringField.apply_index\<close>

text \<open>
  Modelled from the spec: \<open>ops.apply_indices_to_index_values\<close>
  (exetera/core/operations.py) is not among the sources. For an indexed string the spec
  has \<open>apply_index\<close> "select/gather the per-row byte spans indicated by old offsets,
  concatenate in new order, emit fresh offsets starting at 0", the index list being "a
  sequence of existing row positions", and "out-of-range positions fail with
  IndexError". Row \<open>i\<close> of an indexed string is \<open>values[indices[i] : indices[i+1]]\<close>.
\<close>

definition row_span :: "nat list \<Rightarrow> 'a list \<Rightarrow> nat \<Rightarrow> 'a list" where
  "row_span indices vals i = slice vals (indices ! i) (indices ! (i + 1))"

definition apply_indices_to_index_values ::
  "int list \<Rightarrow> nat list \<Rightarrow> 'a list \<Rightarrow> error + nat list \<times> 'a list" where
  "apply_indices_to_index_values indices_to_apply indices vals =
     (if list_all (\<lambda>i. 0 \<le> i \<and> i + 1 < int (length indices)) indices_to_apply
      then let rows = map (\<lambda>i. row_span indices vals (nat i)) indices_to_apply
           in Inr (0 # offsets 0 rows, concat rows)
      else Inl IndexError)"

text \<open>
  The properties \<open>indices\<close> and \<open>values\<close> of an indexed string field wrap the datasets
  \<open>index\<close> and \<open>values\<close> as \<open>data\<close> wraps \<open>values\<close> in a fixed-width field. Offsets and
  bytes are naturals. The destination's two arrays are written like the one array of a
  fixed-width field: assigned when the length agrees, cleared and written otherwise.
\<close>

definition array_store :: "nat store \<Rightarrow> HDF5Field \<Rightarrow> string \<Rightarrow> nat list \<Rightarrow> error + nat store" where
  "array_store st dstfld name dest =
     bind_err (FieldArray_len (st (fid dstfld)) name) (\<lambda>n.
     bind_err (if n = length dest
               then (if write_enabled dstfld
                     then WriteableFieldArray_setitem (st (fid dstfld)) name dest
                     else ReadOnlyFieldArray_setitem (st (fid dstfld)) name () dest)
               else bind_err (if write_enabled dstfld
                              then WriteableFieldArray_clear (st (fid dstfld)) name
                              else ReadOnlyFieldArray_clear (st (fid dstfld)) name)
                      (\<lambda>fld. if write_enabled dstfld
                              then WriteableFieldArray_write fld name dest
                              else ReadOnlyFieldArray_write fld name dest))
       (\<lambda>fld. Inr (st(fid dstfld := fld))))"

text \<open>
  \<open>IndexedStringField.writeable\<close> constructs an \<open>IndexedStringField\<close> on the same
  backing group with \<open>write_enabled=True\<close>, as \<open>NumericField.writeable\<close> does.
\<close>

definition IndexedStringField_writeable :: "'a store \<Rightarrow> HDF5Field \<Rightarrow> error + HDF5Field" where
  "IndexedStringField_writeable st self =
     (case attrs (st (fid self)) ''fieldtype'' of
        None \<Rightarrow> Inl KeyError
      | Some t \<Rightarrow> Inr \<lparr>fid = fid self, write_enabled = True\<rparr>)"

definition IndexedStringField_apply_index ::
  "nat store \<Rightarrow> HDF5Field \<Rightarrow> int list \<Rightarrow> HDF5Field option \<Rightarrow> error + HDF5Field \<times> nat store" where
  "IndexedStringField_apply_index st self index_to_apply dstfld =
     bind_err (FieldArray_getitem (st (fid self)) ''index'') (\<lambda>indices.
     bind_err (FieldArray_getitem (st (fid self)) ''values'') (\<lambda>vals.
     bind_err (apply_indices_to_index_values index_to_apply indices vals)
       (\<lambda>(dest_indices, dest_values).
       let dstfld = (case dstfld of None \<Rightarrow> self | Some d \<Rightarrow> d)
       in bind_err (if \<not> write_enabled dstfld then IndexedStringField_writeable st dstfld
                    else Inr dstfld) (\<lambda>dstfld.
          bind_err (array_store st dstfld ''index'' dest_indices) (\<lambda>st.
          bind_err (array_store st dstfld ''values'' dest_values) (\<lambda>st.
            Inr (dstfld, st)))))))"

definition indexed_field_ok :: "nat store \<Rightarrow> HDF5Field \<Rightarrow> bool" where
  "indexed_field_ok st self \<longleftrightarrow>
     attrs (st (fid self)) ''fieldtype'' \<noteq> None \<and>
     dsets (st (fid self)) ''index'' \<noteq> None \<and> dsets (st (fid self)) ''values'' \<noteq> None"

text \<open>An indexed string field for the examples: the rows "ab", "", "cde" in group 0.\<close>

definition example_string_store :: "nat store" where
  "example_string_store = (\<lambda>a.
     \<lparr>attrs = [''fieldtype'' \<mapsto> StrAttr ''indexedstring''],
      dsets = (if a = 0 then [''index'' \<mapsto> [0, 2, 2, 5], ''values'' \<mapsto> [97, 98, 99, 100, 101]]
               else [''index'' \<mapsto> [], ''values'' \<mapsto> []]),
      names = Map.empty\<rparr>)"

subsection \<open>Gather by index\<close>

lemma store_result_eq:
  assumes "field_ok st dstfld"
  shows "store_result st dstfld result =
           Inr (\<lparr>fid = fid dstfld, write_enabled = True\<rparr>,
                st(fid dstfld := (st (fid dstfld))\<lparr>dsets :=
                     (dsets (st (fid dstfld)))(''values'' \<mapsto> result)\<rparr>))"
proof -
  from assms obtain t old where t: "attrs (st (fid dstfld)) ''fieldtype'' = Some t"
    and old: "dsets (st (fid dstfld)) ''values'' = Some old"
    by (auto simp: field_ok_def)
  let ?d = "\<lparr>fid = fid dstfld, write_enabled = True\<rparr>"
  have w: "(if \<not> write_enabled dstfld then NumericField_writeable st dstfld else Inr dstfld) = Inr ?d"
    using t by (simp add: NumericField_writeable_def)
  have n: "data_len st ?d = Inr (length old)"
    using old by (simp add: data_len_def FieldArray_len_def h5_dataset_def)
  have s: "data_setitem st ?d result
           = (if length result = length old
              then Inr (st(fid dstfld := (st (fid dstfld))\<lparr>dsets :=
                     (dsets (st (fid dstfld)))(''values'' \<mapsto> result)\<rparr>))
              else if length result = 1
              then Inr (st(fid dstfld := (st (fid dstfld))\<lparr>dsets :=
                     (dsets (st (fid dstfld)))(''values'' \<mapsto> replicate (length old) (hd result))\<rparr>))
              else Inl TypeError)"
    using old by (simp add: data_setitem_def WriteableFieldArray_setitem_def h5_dataset_def)
  have c: "bind_err (data_clear st ?d) (\<lambda>st. data_write st ?d result)
           = Inr (st(fid dstfld := (st (fid dstfld))\<lparr>dsets :=
                     (dsets (st (fid dstfld)))(''values'' \<mapsto> result)\<rparr>))"
    using old
    by (simp add: data_clear_def data_write_def WriteableFieldArray_clear_def
        WriteableFieldArray_write_def WriteableFieldArray_complete_def h5_dataset_def
        DataWriter_clear_dataset_def DataWriter_write_def DataWriter_flush_def Let_def)
  show ?thesis
    unfolding store_result_def w bind_err.simps n
    by (cases "length old = length result") (simp_all add: s c)
qed

lemma np_take_in_range:
  "(\<forall>i \<in> set indices. - int (length array) \<le> i \<and> i < int (length array)) \<Longrightarrow>
   np_take array indices = Inr (map (np_index array) indices)"
  by (simp add: np_take_def list_all_iff)

lemma np_take_out_of_range:
  assumes "\<exists>i \<in> set indices. i < - int (length array) \<or> int (length array) \<le> i"
  shows "np_take array indices = Inl IndexError"
proof -
  from assms obtain i where i: "i \<in> set indices"
    and "i < - int (length array) \<or> int (length array) \<le> i"
    by blast
  then have "\<not> (- int (length array) \<le> i \<and> i < int (length array))"
    by linarith
  with i have "\<not> list_all (\<lambda>i. - int (length array) \<le> i \<and> i < int (length array)) indices"
    unfolding list_all_iff by blast
  then show ?thesis
    by (simp add: np_take_def)
qed

lemma apply_index_eq:
  assumes "dsets (st (fid self)) ''values'' = Some array"
  shows "NumericField_apply_index st self indices dstfld =
           bind_err (np_take array indices) (store_result st (destination self dstfld))"
  using assms
  by (cases "np_take array indices")
     (simp_all add: NumericField_apply_index_def data_getitem_def FieldArray_getitem_def
       h5_dataset_def destination_def)


lemma numeric_apply_index_rows:
  assumes src: "dsets (st (fid self)) ''values'' = Some array"
    and dst: "field_ok st (destination self dstfld)"
  shows "((\<forall>i \<in> set indices. - int (length array) \<le> i \<and> i < int (length array)) \<longrightarrow>
            (\<exists>h st' rows.
               NumericField_apply_index st self indices dstfld = Inr (h, st') \<and>
               fid h = fid (destination self dstfld) \<and>
               data_getitem st' h = Inr rows \<and> length rows = length indices \<and>
               (\<forall>j < length indices.
                  rows ! j = (if 0 \<le> indices ! j then array ! nat (indices ! j)
                              else array ! nat (int (length array) + indices ! j))) \<and>
               (\<forall>a. a \<noteq> fid h \<longrightarrow> st' a = st a))) \<and>
         ((\<exists>i \<in> set indices. i < - int (length array) \<or> int (length array) \<le> i) \<longrightarrow>
            NumericField_apply_index st self indices dstfld = Inl IndexError)"
proof (intro conjI impI)
  assume r: "\<forall>i \<in> set indices. - int (length array) \<le> i \<and> i < int (length array)"
  let ?d = "destination self dstfld"
  let ?rows = "map (np_index array) indices"
  let ?st = "st(fid ?d := (st (fid ?d))\<lparr>dsets := (dsets (st (fid ?d)))(''values'' \<mapsto> ?rows)\<rparr>)"
  have e: "NumericField_apply_index st self indices dstfld
           = Inr (\<lparr>fid = fid ?d, write_enabled = True\<rparr>, ?st)"
    by (simp add: apply_index_eq [of st self array, OF src] np_take_in_range [OF r] store_result_eq [OF dst])
  have g: "data_getitem ?st \<lparr>fid = fid ?d, write_enabled = True\<rparr> = Inr ?rows"
    by (simp add: data_getitem_def FieldArray_getitem_def h5_dataset_def)
  have n: "\<forall>j < length indices.
             ?rows ! j = (if 0 \<le> indices ! j then array ! nat (indices ! j)
                          else array ! nat (int (length array) + indices ! j))"
    by (simp add: np_index_def add.commute)
  show "\<exists>h st' rows.
               NumericField_apply_index st self indices dstfld = Inr (h, st') \<and>
               fid h = fid (destination self dstfld) \<and>
               data_getitem st' h = Inr rows \<and> length rows = length indices \<and>
               (\<forall>j < length indices.
                  rows ! j = (if 0 \<le> indices ! j then array ! nat (indices ! j)
                              else array ! nat (int (length array) + indices ! j))) \<and>
               (\<forall>a. a \<noteq> fid h \<longrightarrow> st' a = st a)"
    using e g n
    by (intro exI [of _ "\<lparr>fid = fid ?d, write_enabled = True\<rparr>"] exI [of _ ?st] exI [of _ ?rows])
       simp
next
  assume "\<exists>i \<in> set indices. i < - int (length array) \<or> int (length array) \<le> i"
  then show "NumericField_apply_index st self indices dstfld = Inl IndexError"
    by (simp add: apply_index_eq [of st self array, OF src] np_take_out_of_range)
qed

lemma slice_concat_nth:
  assumes "i < length xss"
  shows "slice (concat xss) (length (concat (take i xss)))
           (length (concat (take i xss)) + length (xss ! i)) = xss ! i"
proof -
  have "xss = take i xss @ xss ! i # drop (Suc i) xss"
    using assms by (simp add: id_take_nth_drop)
  then have "concat xss = concat (take i xss) @ xss ! i @ concat (drop (Suc i) xss)"
    by (metis concat.simps(2) concat_append)
  then show ?thesis
    by (simp add: slice_def)
qed

lemma row_span_offsets:
  assumes "j < length rows"
  shows "row_span (0 # offsets 0 rows) (concat rows) j = rows ! j"
proof -
  have a: "(0 # offsets 0 rows) ! j = length (concat (take j rows))"
    using offsets_nth_start [of j rows 0] assms by simp
  have b: "(0 # offsets 0 rows) ! (j + 1) = length (concat (take j rows)) + length (rows ! j)"
    using offsets_nth [OF assms, of 0] a by simp
  show ?thesis
    unfolding row_span_def a b by (rule slice_concat_nth [OF assms])
qed

lemma array_store_eq:
  assumes "dsets (st (fid dstfld)) name = Some old" and "write_enabled dstfld"
  shows "array_store st dstfld name dest =
           Inr (st(fid dstfld := (st (fid dstfld))\<lparr>dsets := (dsets (st (fid dstfld)))(name \<mapsto> dest)\<rparr>))"
proof (cases "length old = length dest")
  case True
  then show ?thesis
    using assms
    by (simp add: array_store_def FieldArray_len_def h5_dataset_def WriteableFieldArray_setitem_def)
next
  case False
  then show ?thesis
    using assms
    by (simp add: array_store_def FieldArray_len_def h5_dataset_def WriteableFieldArray_clear_def
        WriteableFieldArray_write_def WriteableFieldArray_complete_def
        DataWriter_clear_dataset_def DataWriter_write_def DataWriter_flush_def Let_def)
qed

lemma kernel_in_range:
  "(\<forall>i \<in> set idx. 0 \<le> i \<and> i + 1 < int (length indices)) \<Longrightarrow>
   apply_indices_to_index_values idx indices vals =
     Inr (0 # offsets 0 (map (\<lambda>i. row_span indices vals (nat i)) idx),
          concat (map (\<lambda>i. row_span indices vals (nat i)) idx))"
  by (simp add: apply_indices_to_index_values_def list_all_iff Let_def)

lemma kernel_out_of_range:
  assumes "\<exists>i \<in> set idx. i < 0 \<or> int (length indices) \<le> i + 1"
  shows "apply_indices_to_index_values idx indices vals = Inl IndexError"
proof -
  from assms obtain i where i: "i \<in> set idx" and "i < 0 \<or> int (length indices) \<le> i + 1"
    by blast
  then have "\<not> (0 \<le> i \<and> i + 1 < int (length indices))"
    by linarith
  with i have "\<not> list_all (\<lambda>i. 0 \<le> i \<and> i + 1 < int (length indices)) idx"
    unfolding list_all_iff by blast
  then show ?thesis
    by (simp add: apply_indices_to_index_values_def)
qed

lemma indexed_apply_index_eq:
  assumes i: "dsets (st (fid self)) ''index'' = Some indices"
    and v: "dsets (st (fid self)) ''values'' = Some vals"
    and ok: "indexed_field_ok st (destination self dstfld)"
  shows "IndexedStringField_apply_index st self idx dstfld =
           bind_err (apply_indices_to_index_values idx indices vals) (\<lambda>(dest_indices, dest_values).
             Inr (\<lparr>fid = fid (destination self dstfld), write_enabled = True\<rparr>,
                  st(fid (destination self dstfld) := (st (fid (destination self dstfld)))
                       \<lparr>dsets := (dsets (st (fid (destination self dstfld))))
                           (''index'' \<mapsto> dest_indices, ''values'' \<mapsto> dest_values)\<rparr>)))"
proof (cases "apply_indices_to_index_values idx indices vals")
  case (Inl e)
  then show ?thesis
    using i v
    by (simp add: IndexedStringField_apply_index_def FieldArray_getitem_def h5_dataset_def)
next
  case (Inr r)
  obtain di dv where r: "r = (di, dv)" by (cases r)
  let ?dst = "destination self dstfld"
  let ?wd = "\<lparr>fid = fid ?dst, write_enabled = True\<rparr>"
  from ok obtain t oi ov where t: "attrs (st (fid ?dst)) ''fieldtype'' = Some t"
    and oi: "dsets (st (fid ?dst)) ''index'' = Some oi"
    and ov: "dsets (st (fid ?dst)) ''values'' = Some ov"
    by (auto simp: indexed_field_ok_def)
  have w: "(if \<not> write_enabled ?dst then IndexedStringField_writeable st ?dst else Inr ?dst) = Inr ?wd"
    using t by (simp add: IndexedStringField_writeable_def)
  let ?st1 = "st(fid ?dst := (st (fid ?dst))\<lparr>dsets := (dsets (st (fid ?dst)))(''index'' \<mapsto> di)\<rparr>)"
  have s1: "array_store st ?wd ''index'' di = Inr ?st1"
    using array_store_eq [of st ?wd "''index''" oi di] oi by simp
  have ov1: "dsets (?st1 (fid ?wd)) ''values'' = Some ov"
    using ov by simp
  have s2: "array_store ?st1 ?wd ''values'' dv =
              Inr (?st1(fid ?wd := (?st1 (fid ?wd))\<lparr>dsets := (dsets (?st1 (fid ?wd)))(''values'' \<mapsto> dv)\<rparr>))"
    using array_store_eq [of ?st1 ?wd "''values''" ov dv] ov1 by simp
  have "IndexedStringField_apply_index st self idx dstfld =
          bind_err (if \<not> write_enabled ?dst then IndexedStringField_writeable st ?dst else Inr ?dst)
            (\<lambda>d. bind_err (array_store st d ''index'' di) (\<lambda>st.
                   bind_err (array_store st d ''values'' dv) (\<lambda>st. Inr (d, st))))"
    using i v Inr r
    by (simp add: IndexedStringField_apply_index_def FieldArray_getitem_def h5_dataset_def
        destination_def Let_def)
  also have "\<dots> = Inr (?wd, ?st1(fid ?wd := (?st1 (fid ?wd))\<lparr>dsets := (dsets (?st1 (fid ?wd)))(''values'' \<mapsto> dv)\<rparr>))"
    unfolding w by (simp add: s1 s2)
  finally have "IndexedStringField_apply_index st self idx dstfld =
          Inr (?wd, ?st1(fid ?wd := (?st1 (fid ?wd))\<lparr>dsets := (dsets (?st1 (fid ?wd)))(''values'' \<mapsto> dv)\<rparr>))" .
  then show ?thesis
    using Inr r by simp
qed

lemma indexed_apply_index_rows:
  assumes isrc: "dsets (st (fid self)) ''index'' = Some indices"
    "dsets (st (fid self)) ''values'' = Some vals"
    and idst: "indexed_field_ok st (destination self dstfld)"
  shows "((\<forall>i \<in> set index_to_apply. 0 \<le> i \<and> i + 1 < int (length indices)) \<longrightarrow>
            (\<exists>h st' dest_indices dest_values.
               IndexedStringField_apply_index st self index_to_apply dstfld = Inr (h, st') \<and>
               fid h = fid (destination self dstfld) \<and>
               dsets (st' (fid h)) ''index'' = Some dest_indices \<and>
               dsets (st' (fid h)) ''values'' = Some dest_values \<and>
               length dest_indices = length index_to_apply + 1 \<and> dest_indices ! 0 = 0 \<and>
               (\<forall>j < length index_to_apply.
                  row_span dest_indices dest_values j
                    = row_span indices vals (nat (index_to_apply ! j))) \<and>
               (\<forall>a. a \<noteq> fid h \<longrightarrow> st' a = st a))) \<and>
         ((\<exists>i \<in> set index_to_apply. i < 0 \<or> int (length indices) \<le> i + 1) \<longrightarrow>
            IndexedStringField_apply_index st self index_to_apply dstfld = Inl IndexError)"
proof (intro conjI impI)
  assume r: "\<forall>i \<in> set index_to_apply. 0 \<le> i \<and> i + 1 < int (length indices)"
  let ?dst = "destination self dstfld"
  let ?rows = "map (\<lambda>i. row_span indices vals (nat i)) index_to_apply"
  let ?st = "st(fid ?dst := (st (fid ?dst))\<lparr>dsets := (dsets (st (fid ?dst)))
                 (''index'' \<mapsto> 0 # offsets 0 ?rows, ''values'' \<mapsto> concat ?rows)\<rparr>)"
  have e: "IndexedStringField_apply_index st self index_to_apply dstfld
           = Inr (\<lparr>fid = fid ?dst, write_enabled = True\<rparr>, ?st)"
    by (simp add: indexed_apply_index_eq [of st self indices vals dstfld, OF isrc idst]
        kernel_in_range [OF r])
  have n: "\<forall>j < length index_to_apply.
             row_span (0 # offsets 0 ?rows) (concat ?rows) j
               = row_span indices vals (nat (index_to_apply ! j))"
    by (simp add: row_span_offsets)
  show "\<exists>h st' dest_indices dest_values.
               IndexedStringField_apply_index st self index_to_apply dstfld = Inr (h, st') \<and>
               fid h = fid (destination self dstfld) \<and>
               dsets (st' (fid h)) ''index'' = Some dest_indices \<and>
               dsets (st' (fid h)) ''values'' = Some dest_values \<and>
               length dest_indices = length index_to_apply + 1 \<and> dest_indices ! 0 = 0 \<and>
               (\<forall>j < length index_to_apply.
                  row_span dest_indices dest_values j
                    = row_span indices vals (nat (index_to_apply ! j))) \<and>
               (\<forall>a. a \<noteq> fid h \<longrightarrow> st' a = st a)"
    using e n
    by (rule_tac x = "\<lparr>fid = fid ?dst, write_enabled = True\<rparr>" in exI, rule_tac x = ?st in exI,
        rule_tac x = "0 # offsets 0 ?rows" in exI, rule_tac x = "concat ?rows" in exI)
       simp
next
  assume "\<exists>i \<in> set index_to_apply. i < 0 \<or> int (length indices) \<le> i + 1"
  then show "IndexedStringField_apply_index st self index_to_apply dstfld = Inl IndexError"
    by (simp add: indexed_apply_index_eq [of st self indices vals dstfld, OF isrc idst]
        kernel_out_of_range)
qed

text \<open>
  C3 (as amended). For a fixed-width field (numeric, fixed string, categorical, timestamp)
  of \<open>n\<close> rows and an index list whose entries all lie in \<open>[-n, n)\<close>, \<open>apply_index\<close>
  succeeds and row \<open>j\<close> of the destination is the source row at position \<open>indices[j]\<close>
  for an entry in \<open>[0, n)\<close>, and the source row at \<open>n + indices[j]\<close> for a negative
  entry (numpy counts it from the end); the index list may repeat entries and be in any
  order, and no other field's storage changes. An entry outside \<open>[-n, n)\<close> makes
  \<open>apply_index\<close> fail with IndexError. For an indexed string field of \<open>n\<close> rows (an
  index array of \<open>n + 1\<close> offsets), with the gather of \<open>ops\<close> as the spec describes it,
  and an index list whose entries all lie in \<open>[0, n)\<close>, \<open>apply_index\<close> succeeds, the
  destination's offsets start at 0 and number one more than the index list, and row \<open>j\<close>
  of the destination is the source row at position \<open>indices[j]\<close>; an entry outside
  \<open>[0, n)\<close> makes it fail with IndexError.
\<close>

theorem apply_index_gathers_rows:
  assumes src: "dsets (st (fid self)) ''values'' = Some array"
    and dst: "field_ok st (destination self dstfld)"
    and isrc: "dsets (ist (fid iself)) ''index'' = Some indices"
      "dsets (ist (fid iself)) ''values'' = Some vals"
    and idst: "indexed_field_ok ist (destination iself idstfld)"
  shows "((\<forall>i \<in> set index_to_apply. - int (length array) \<le> i \<and> i < int (length array)) \<longrightarrow>
            (\<exists>h st' rows.
               NumericField_apply_index st self index_to_apply dstfld = Inr (h, st') \<and>
               fid h = fid (destination self dstfld) \<and>
               data_getitem st' h = Inr rows \<and> length rows = length index_to_apply \<and>
               (\<forall>j < length index_to_apply.
                  rows ! j = (if 0 \<le> index_to_apply ! j then array ! nat (index_to_apply ! j)
                              else array ! nat (int (length array) + index_to_apply ! j))) \<and>
               (\<forall>a. a \<noteq> fid h \<longrightarrow> st' a = st a))) \<and>
         ((\<exists>i \<in> set index_to_apply. i < - int (length array) \<or> int (length array) \<le> i) \<longrightarrow>
            NumericField_apply_index st self index_to_apply dstfld = Inl IndexError) \<and>
         ((\<forall>i \<in> set index_to_apply. 0 \<le> i \<and> i + 1 < int (length indices)) \<longrightarrow>
            (\<exists>h st' dest_indices dest_values.
               IndexedStringField_apply_index ist iself index_to_apply idstfld = Inr (h, st') \<and>
               fid h = fid (destination iself idstfld) \<and>
               dsets (st' (fid h)) ''index'' = Some dest_indices \<and>
               dsets (st' (fid h)) ''values'' = Some dest_values \<and>
               length dest_indices = length index_to_apply + 1 \<and> dest_indices ! 0 = 0 \<and>
               (\<forall>j < length index_to_apply.
                  row_span dest_indices dest_values j
                    = row_span indices vals (nat (index_to_apply ! j))) \<and>
               (\<forall>a. a \<noteq> fid h \<longrightarrow> st' a = ist a))) \<and>
         ((\<exists>i \<in> set index_to_apply. i < 0 \<or> int (length indices) \<le> i + 1) \<longrightarrow>
            IndexedStringField_apply_index ist iself index_to_apply idstfld = Inl IndexError)"
proof -
  note a = numeric_apply_index_rows [of st self array dstfld index_to_apply, OF src dst]
  note b = indexed_apply_index_rows [of ist iself indices vals idstfld index_to_apply, OF isrc idst]
  show ?thesis
    by (intro conjI a [THEN conjunct1] a [THEN conjunct2] b [THEN conjunct1] b [THEN conjunct2])
qed

theorem apply_index_gathers_rows_witness:
  "dsets (example_store (fid \<lparr>fid = 0, write_enabled = False\<rparr>)) ''values'' = Some [10, 20, 30] \<and>
   field_ok example_store
     (destination \<lparr>fid = 0, write_enabled = False\<rparr> (Some \<lparr>fid = 1, write_enabled = True\<rparr>)) \<and>
   dsets (example_string_store (fid \<lparr>fid = 0, write_enabled = False\<rparr>)) ''index''
     = Some [0, 2, 2, 5] \<and>
   dsets (example_string_store (fid \<lparr>fid = 0, write_enabled = False\<rparr>)) ''values''
     = Some [97, 98, 99, 100, 101] \<and>
   indexed_field_ok example_string_store
     (destination \<lparr>fid = 0, write_enabled = False\<rparr> (Some \<lparr>fid = 1, write_enabled = True\<rparr>)) \<and>
   (\<exists>h st' rows.
      NumericField_apply_index example_store \<lparr>fid = 0, write_enabled = False\<rparr> [2, 0, 0, - 1]
        (Some \<lparr>fid = 1, write_enabled = True\<rparr>) = Inr (h, st') \<and>
      fid h = 1 \<and> data_getitem st' h = Inr rows \<and> length rows = 4 \<and>
      rows ! 0 = 30 \<and> rows ! 1 = 10 \<and> rows ! 2 = 10 \<and> rows ! 3 = 30 \<and> st' 0 = example_store 0) \<and>
   NumericField_apply_index example_store \<lparr>fid = 0, write_enabled = False\<rparr> [3]
     (Some \<lparr>fid = 1, write_enabled = True\<rparr>) = Inl IndexError \<and>
   (\<exists>h st' dest_indices dest_values.
      IndexedStringField_apply_index example_string_store \<lparr>fid = 0, write_enabled = False\<rparr>
        [2, 0, 0, 1] (Some \<lparr>fid = 1, write_enabled = True\<rparr>) = Inr (h, st') \<and>
      fid h = 1 \<and>
      dsets (st' (fid h)) ''index'' = Some dest_indices \<and>
      dsets (st' (fid h)) ''values'' = Some dest_values \<and>
      row_span dest_indices dest_values 0 = [99, 100, 101] \<and>
      row_span dest_indices dest_values 1 = [97, 98] \<and>
      row_span dest_indices dest_values 2 = [97, 98] \<and>
      row_span dest_indices dest_values 3 = []) \<and>
   IndexedStringField_apply_index example_string_store \<lparr>fid = 0, write_enabled = False\<rparr> [3]
     (Some \<lparr>fid = 1, write_enabled = True\<rparr>) = Inl IndexError"
proof -
  let ?self = "\<lparr>fid = 0, write_enabled = False\<rparr>"
  let ?dst = "Some \<lparr>fid = 1, write_enabled = True\<rparr>"
  have src: "dsets (example_store (fid ?self)) ''values'' = Some [10, 20, 30]"
    by (simp add: example_store_def)
  have dst: "field_ok example_store (destination ?self ?dst)"
    by (simp add: field_ok_def destination_def example_store_def)
  have isrc: "dsets (example_string_store (fid ?self)) ''index'' = Some [0, 2, 2, 5]"
    "dsets (example_string_store (fid ?self)) ''values'' = Some [97, 98, 99, 100, 101]"
    by (simp_all add: example_string_store_def)
  have idst: "indexed_field_ok example_string_store (destination ?self ?dst)"
    by (simp add: indexed_field_ok_def destination_def example_string_store_def)
  have d: "fid (destination ?self ?dst) = 1"
    by (simp add: destination_def)
  note t = apply_index_gathers_rows
             [where st = example_store and self = ?self and array = "[10, 20, 30]" and dstfld = ?dst
                and ist = example_string_store and iself = ?self and indices = "[0, 2, 2, 5]"
                and vals = "[97, 98, 99, 100, 101]" and idstfld = ?dst,
              OF src dst isrc idst]
  from t [where index_to_apply = "[2, 0, 0, - 1]"]
  obtain h st' rows where
    1: "NumericField_apply_index example_store ?self [2, 0, 0, - 1] ?dst = Inr (h, st')"
    and 2: "fid h = 1" and 3: "data_getitem st' h = Inr rows" and 4: "length rows = 4"
    and 5: "\<forall>j < 4. rows ! j = (if 0 \<le> [2, 0, 0, - 1 :: int] ! j then [10, 20, 30] ! nat ([2, 0, 0, - 1] ! j)
                              else [10, 20, 30] ! nat (int (length [10 :: int, 20, 30]) + [2, 0, 0, - 1] ! j))"
    and 6: "\<forall>a. a \<noteq> fid h \<longrightarrow> st' a = example_store a"
    unfolding d by auto
  from 5 have r: "rows ! 0 = 30" "rows ! 1 = 10" "rows ! 2 = 10" "rows ! 3 = 30"
    by simp_all
  from 6 2 have s: "st' 0 = example_store 0"
    by simp
  have n: "\<exists>h st' rows.
      NumericField_apply_index example_store ?self [2, 0, 0, - 1] ?dst = Inr (h, st') \<and>
      fid h = 1 \<and> data_getitem st' h = Inr rows \<and> length rows = 4 \<and>
      rows ! 0 = 30 \<and> rows ! 1 = 10 \<and> rows ! 2 = 10 \<and> rows ! 3 = 30 \<and> st' 0 = example_store 0"
    using 1 2 3 4 r s by blast
  from t [where index_to_apply = "[3]"]
  have e: "NumericField_apply_index example_store ?self [3] ?dst = Inl IndexError"
    and ie: "IndexedStringField_apply_index example_string_store ?self [3] ?dst = Inl IndexError"
    by simp_all
  from t [where index_to_apply = "[2, 0, 0, 1]"]
  obtain ih ist' di dv where
    i1: "IndexedStringField_apply_index example_string_store ?self [2, 0, 0, 1] ?dst = Inr (ih, ist')"
    and i2: "fid ih = 1"
    and i3: "dsets (ist' (fid ih)) ''index'' = Some di"
    and i4: "dsets (ist' (fid ih)) ''values'' = Some dv"
    and i5: "\<forall>j < 4. row_span di dv j
               = row_span [0, 2, 2, 5] [97, 98, 99, 100, 101 :: nat] (nat ([2, 0, 0, 1] ! j))"
    unfolding d by auto
  have src_rows: "row_span [0, 2, 2, 5] [97, 98, 99, 100, 101 :: nat] 0 = [97, 98]"
    "row_span [0, 2, 2, 5] [97, 98, 99, 100, 101 :: nat] (Suc 0) = []"
    "row_span [0, 2, 2, 5] [97, 98, 99, 100, 101 :: nat] 2 = [99, 100, 101]"
    by (simp_all add: row_span_def slice_def)
  have ir: "row_span di dv 0 = [99, 100, 101]" "row_span di dv 1 = [97, 98]"
    "row_span di dv 2 = [97, 98]" "row_span di dv 3 = []"
    using i5 [THEN spec, of 0] i5 [THEN spec, of 1] i5 [THEN spec, of 2] i5 [THEN spec, of 3]
    by (simp_all add: src_rows)
  have m: "\<exists>h st' dest_indices dest_values.
      IndexedStringField_apply_index example_string_store ?self [2, 0, 0, 1] ?dst = Inr (h, st') \<and>
      fid h = 1 \<and>
      dsets (st' (fid h)) ''index'' = Some dest_indices \<and>
      dsets (st' (fid h)) ''values'' = Some dest_values \<and>
      row_span dest_indices dest_values 0 = [99, 100, 101] \<and>
      row_span dest_indices dest_values 1 = [97, 98] \<and>
      row_span dest_indices dest_values 2 = [97, 98] \<and>
      row_span dest_indices dest_values 3 = []"
    using i1 i2 i3 i4 ir by blast
  from src dst isrc idst n e m ie show ?thesis
    by (intro conjI)
qed

text \<open>
  The claim as stated fails on the code: the index -1 lies outside \<open>[0, length)\<close>, and
  \<open>apply_index\<close> does not fail on it but returns the last row.
\<close>

theorem apply_index_negative_counterexample:
  "map_sum id (\<lambda>(h, st). data_getitem st h)
     (NumericField_apply_index example_store \<lparr>fid = 0, write_enabled = True\<rparr> [- 1] None)
     = Inr (Inr [30])"
  by code_simp




section \<open>Writing after complete\<close>

lemma run_calls_then_complete:
  assumes "writer_holds ss self"
  shows "\<exists>self'. run_calls self (calls @ [Complete]) = Inr self' \<and>
           writer_holds (ss @ strings_of calls) self' \<and>
           value_index self' = 0 \<and> index_index self' = 0"
proof -
  from run_calls_holds [OF assms, of calls] obtain s1 where
    s1: "run_calls self calls = Inr s1" "writer_holds (ss @ strings_of calls) s1"
    by blast
  from complete_holds [OF s1(2)] obtain self' where
    "WriteableIndexedFieldArray_complete s1 = Inr self'"
    "writer_holds (ss @ strings_of calls) self'"
    "value_index self' = 0" "index_index self' = 0"
    by blast
  then show ?thesis
    using s1(1) by (simp add: run_calls_append)
qed

lemma write_then_write_part:
  assumes "dsets fld dname = Some xs"
  shows "\<exists>fld'. bind_err (WriteableFieldArray_write fld dname p)
                  (\<lambda>fld. WriteableFieldArray_write_part fld dname q) = Inr fld' \<and>
               dsets fld' dname = Some (xs @ p @ q)"
  using assms
  by (simp add: WriteableFieldArray_write_def WriteableFieldArray_write_part_def
      WriteableFieldArray_complete_def h5_dataset_def DataWriter_write_def DataWriter_flush_def)

text \<open>
  C8 (as amended). \<open>write_part\<close> after \<open>complete()\<close> does not fail; the sources have no
  check of a completed state. On an indexed string array, \<open>write_part(A); complete();
  write_part(B); complete()\<close> leaves the same index and values arrays as
  \<open>write_part(A + B); complete()\<close>, and the rows read back are those of \<open>A + B\<close>. On a
  fixed-width array, \<open>write_part\<close> after \<open>write\<close> (which calls \<open>complete\<close>) appends to
  what is there.
\<close>

theorem write_part_after_complete_appends:
  assumes c: "0 < (case csz of None \<Rightarrow> session_chunksize s | Some c \<Rightarrow> c)"
    and d: "dsets fld dname = Some xs"
  shows "(\<exists>a a1 a2.
            new_indexed_string_array s name ts csz = Inr a \<and>
            run_calls a [WritePart part1, Complete, WritePart part2, Complete] = Inr a1 \<and>
            run_calls a [WritePart (part1 @ part2), Complete] = Inr a2 \<and>
            dsets (field a1) ''index'' = dsets (field a2) ''index'' \<and>
            dsets (field a1) ''values'' = dsets (field a2) ''values'' \<and>
            read_rows a1 = map Inr (part1 @ part2)) \<and>
         (\<exists>fld'. bind_err (WriteableFieldArray_write fld dname p)
                    (\<lambda>fld. WriteableFieldArray_write_part fld dname q) = Inr fld' \<and>
                 dsets fld' dname = Some (xs @ p @ q))"
proof -
  from new_array_holds [OF c] obtain a where
    a: "new_indexed_string_array s name ts csz = Inr a" "writer_holds [] a"
    by blast
  from run_calls_then_complete [OF a(2), of "[WritePart part1, Complete, WritePart part2]"]
  obtain a1 where
    a1: "run_calls a [WritePart part1, Complete, WritePart part2, Complete] = Inr a1"
        "writer_holds (part1 @ part2) a1" "value_index a1 = 0" "index_index a1 = 0"
    by auto
  from run_calls_then_complete [OF a(2), of "[WritePart (part1 @ part2)]"]
  obtain a2 where
    a2: "run_calls a [WritePart (part1 @ part2), Complete] = Inr a2"
        "writer_holds (part1 @ part2) a2" "value_index a2 = 0" "index_index a2 = 0"
    by auto
  have "dsets (field a1) ''index'' = dsets (field a2) ''index''"
    using flushed_datasets(2) [OF a1(2-4)] flushed_datasets(2) [OF a2(2-4)] by simp
  moreover have "dsets (field a1) ''values'' = dsets (field a2) ''values''"
    using flushed_datasets(1) [OF a1(2-4)] flushed_datasets(1) [OF a2(2-4)] by simp
  moreover have "read_rows a1 = map Inr (part1 @ part2)"
    by (rule flushed_read_rows [OF a1(2-4)])
  ultimately have "\<exists>a a1 a2.
            new_indexed_string_array s name ts csz = Inr a \<and>
            run_calls a [WritePart part1, Complete, WritePart part2, Complete] = Inr a1 \<and>
            run_calls a [WritePart (part1 @ part2), Complete] = Inr a2 \<and>
            dsets (field a1) ''index'' = dsets (field a2) ''index'' \<and>
            dsets (field a1) ''values'' = dsets (field a2) ''values'' \<and>
            read_rows a1 = map Inr (part1 @ part2)"
    using a(1) a1(1) a2(1) by blast
  with write_then_write_part [OF d] show ?thesis
    by blast
qed

theorem write_part_after_complete_appends_witness:
  "(0::int) < 2 \<and>
   dsets (example_store 0) ''values'' = Some [10, 20, 30] \<and>
   (\<exists>a a1. new_indexed_string_array \<lparr>session_chunksize = 2\<rparr> ''notes'' None None = Inr a \<and>
      run_calls a [WritePart [''ab''], Complete, WritePart [''cde'', []], Complete] = Inr a1 \<and>
      read_rows a1 = [Inr ''ab'', Inr ''cde'', Inr []]) \<and>
   (\<exists>fld'. bind_err (WriteableFieldArray_write (example_store 0) ''values'' [40])
              (\<lambda>fld. WriteableFieldArray_write_part fld ''values'' [50, 60]) = Inr fld' \<and>
           dsets fld' ''values'' = Some [10, 20, 30, 40, 50, 60])"
proof -
  have c: "0 < (case None of None \<Rightarrow> session_chunksize \<lparr>session_chunksize = 2\<rparr> | Some c \<Rightarrow> c)"
    by simp
  have d: "dsets (example_store 0) ''values'' = Some [10, 20, 30]"
    by (simp add: example_store_def)
  from write_part_after_complete_appends
         [OF c d, of "''notes''" None "[''ab'']" "[''cde'', []]" "[40]" "[50, 60]"]
  have "\<exists>a a1. new_indexed_string_array \<lparr>session_chunksize = 2\<rparr> ''notes'' None None = Inr a \<and>
      run_calls a [WritePart [''ab''], Complete, WritePart [''cde'', []], Complete] = Inr a1 \<and>
      read_rows a1 = [Inr ''ab'', Inr ''cde'', Inr []]"
    and "\<exists>fld'. bind_err (WriteableFieldArray_write (example_store 0) ''values'' [40])
              (\<lambda>fld. WriteableFieldArray_write_part fld ''values'' [50, 60]) = Inr fld' \<and>
           dsets fld' ''values'' = Some [10, 20, 30, 40, 50, 60]"
    by auto
  with d show ?thesis by simp
qed

text \<open>
  The claim as stated fails on the code: the \<open>write_part\<close> that follows \<open>complete()\<close>
  returns normally and its string is stored.
\<close>

theorem write_part_after_complete_counterexample:
  "map_sum id read_rows
     (bind_err (new_indexed_string_array \<lparr>session_chunksize = 2\<rparr> ''notes'' None None)
        (\<lambda>a. run_calls a [WritePart [''ab''], Complete, WritePart [''cde''], Complete]))
     = Inr [Inr ''ab'', Inr ''cde''] \<and>
   map_sum id (\<lambda>a. dsets (field a) ''values'')
     (bind_err (new_indexed_string_array \<lparr>session_chunksize = 2\<rparr> ''notes'' None None)
        (\<lambda>a. run_calls a [WritePart [''ab''], Complete, WritePart [''cde'']]))
     = Inr (Some [97, 98, 99, 100])"
  by code_simp

section \<open>LeakyCategoricalImporter (fields.py)\<close>










subsection \<open>Codes and companion texts\<close>







section \<open>HDF5DataFrame (dataframe.py)\<close>

subsection \<open>Calls across the two modules\<close>

text \<open>
  dataframe.py calls the field classes and the field classes call the data frame; each
  call is written here with its positional and keyword arguments as the source has
  them, and the callee binds them to the parameters of its \<open>def\<close> line as Python does:
  the call raises TypeError when there are more positional arguments than parameters,
  when a keyword names no parameter or one that a positional argument has already
  bound, and when a parameter without a default stays unbound.
\<close>

datatype pyarg =
    PyNone | PyBool bool | PyInt int | PyStr string | PySession
  | PyGroup nat | PyFrame string | PyField HDF5Field | PyMask "bool list" | PyIndex "int list"

definition bind_args ::
  "string list \<Rightarrow> nat \<Rightarrow> 'v list \<Rightarrow> (string \<times> 'v) list \<Rightarrow> (string \<rightharpoonup> 'v) option" where
  "bind_args params required args kwargs =
     (if length params < length args then None
      else if \<not> list_all (\<lambda>k. k \<in> set (drop (length args) params)) (map fst kwargs) then None
      else if \<not> list_all (\<lambda>p. p \<in> set (map fst kwargs))
                   (drop (length args) (take required params)) then None
      else Some (map_of (zip params args @ kwargs)))"

definition arg_of_attr :: "attr \<Rightarrow> pyarg" where
  "arg_of_attr a = (case a of IntAttr i \<Rightarrow> PyInt i | StrAttr t \<Rightarrow> PyStr t)"

text \<open>
  The file: its field groups by address, and the next free address. A data frame has
  its name, its columns (a dict in insertion order, from field name to field object)
  and its HDF5 group (from child name to the address of the child's group). The data
  frames of this model hold numeric fields.
\<close>

record 'a hdf5 =
  groups :: "'a store"
  next_group :: nat

record HDF5DataFrame =
  df_name :: string
  columns :: "(string \<times> HDF5Field) list"
  h5group :: "string \<rightharpoonup> nat"

definition HDF5DataFrame_contains :: "HDF5DataFrame \<Rightarrow> string \<Rightarrow> bool" where
  "HDF5DataFrame_contains self name = (name \<in> set (map fst (columns self)))"

definition HDF5DataFrame_keys :: "HDF5DataFrame \<Rightarrow> string list" where
  "HDF5DataFrame_keys self = map fst (columns self)"

definition HDF5DataFrame_getitem :: "HDF5DataFrame \<Rightarrow> string \<Rightarrow> error + HDF5Field" where
  "HDF5DataFrame_getitem self name =
     (if \<not> HDF5DataFrame_contains self name then Inl ValueError
      else case map_of (columns self) name of None \<Rightarrow> Inl KeyError | Some f \<Rightarrow> Inr f)"


text \<open>
  The constructor of the field classes,
  \<open>HDF5Field.__init__(self, session, group, name=None, write_enabled=False)\<close>. Every
  call in the sources either leaves \<open>name\<close> out (\<open>writeable()\<close>) or fails to bind; with a
  name, \<open>group[name]\<close> is a member of a field's group, which has no \<open>fieldtype\<close>.
\<close>

definition NumericField_init :: "'a hdf5 \<Rightarrow> pyarg list \<Rightarrow> (string \<times> pyarg) list \<Rightarrow> error + HDF5Field" where
  "NumericField_init h args kwargs =
     (case bind_args [''session'', ''group'', ''name'', ''write_enabled''] 2 args kwargs of
        None \<Rightarrow> Inl TypeError
      | Some env \<Rightarrow>
          (case env ''group'' of
             Some (PyGroup g) \<Rightarrow>
               if env ''name'' = None \<or> env ''name'' = Some PyNone then
                 (case attrs (groups h g) ''fieldtype'' of
                    None \<Rightarrow> Inl KeyError
                  | Some t \<Rightarrow> Inr \<lparr>fid = g,
                                  write_enabled = (env ''write_enabled'' = Some (PyBool True))\<rparr>)
               else Inl KeyError
           | _ \<Rightarrow> Inl TypeError))"

text \<open>
  \<open>HDF5DataFrame.create_numeric(self, name, nformat, timestamp=None, chunksize=None)\<close>.
  It passes the data frame itself to \<open>numeric_field_constructor\<close> as the group: \<open>name in
  group\<close> is \<open>__contains__\<close> (TypeError for a name that is no string), and
  \<open>group.create_group(name)\<close> makes the child in the HDF5 group (h5py: ValueError when the
  child exists). Then it constructs the field object with four positional arguments and
  \<open>write_enabled=True\<close>.
\<close>

definition as_group :: "'a hdf5 \<Rightarrow> HDF5DataFrame \<Rightarrow> 'a group" where
  "as_group h self =
     (\<lambda>name. case map_of (columns self) name of
                None \<Rightarrow> None
              | Some f \<Rightarrow> Some (groups h (fid f)))"

definition HDF5DataFrame_create_numeric ::
  "session \<Rightarrow> 'a hdf5 \<Rightarrow> HDF5DataFrame \<Rightarrow> pyarg list \<Rightarrow> (string \<times> pyarg) list
   \<Rightarrow> error + HDF5Field \<times> 'a hdf5 \<times> HDF5DataFrame" where
  "HDF5DataFrame_create_numeric s h self args kwargs =
     (case bind_args [''name'', ''nformat'', ''timestamp'', ''chunksize''] 2 args kwargs of
        None \<Rightarrow> Inl TypeError
      | Some env \<Rightarrow>
          (case (env ''name'', env ''nformat'') of
             (Some (PyStr name), Some (PyStr nformat)) \<Rightarrow>
               bind_err (numeric_field_constructor s (as_group h self) name nformat
                           (case env ''timestamp'' of Some (PyStr t) \<Rightarrow> Some t | _ \<Rightarrow> None)
                           (case env ''chunksize'' of Some (PyInt c) \<Rightarrow> Some c | _ \<Rightarrow> None))
                 (\<lambda>grp.
                   case grp name of
                     None \<Rightarrow> Inl KeyError
                   | Some child \<Rightarrow>
                       if name \<in> dom (h5group self) then Inl ValueError
                       else
                         let g = next_group h;
                             h = h\<lparr>groups := (groups h)(g := child), next_group := g + 1\<rparr>;
                             self = self\<lparr>h5group := (h5group self)(name \<mapsto> g)\<rparr>
                         in bind_err (NumericField_init h
                                        [PySession, PyGroup g, PyFrame (df_name self), PyStr name]
                                        [(''write_enabled'', PyBool True)])
                              (\<lambda>field. Inr (field, h,
                                   self\<lparr>columns := filter (\<lambda>(k, f). k \<noteq> name) (columns self)
                                                       @ [(name, field)]\<rparr>)))
           | _ \<Rightarrow> Inl TypeError))"

text \<open>
  \<open>NumericField.create_like(self, group, name, timestamp=None)\<close>, with the data frame as
  the group: it calls \<open>group.create_numeric\<close> with five positional arguments, the
  session first.
\<close>

definition NumericField_create_like ::
  "session \<Rightarrow> 'a hdf5 \<Rightarrow> HDF5Field \<Rightarrow> HDF5DataFrame \<Rightarrow> string \<Rightarrow> pyarg
   \<Rightarrow> error + HDF5Field \<times> 'a hdf5 \<times> HDF5DataFrame" where
  "NumericField_create_like s h self grp name timestamp =
     bind_err (if timestamp = PyNone
               then bind_err (HDF5Field_timestamp (groups h (fid self))) (\<lambda>a. Inr (arg_of_attr a))
               else Inr timestamp) (\<lambda>ts.
     bind_err (case attrs (groups h (fid self)) ''nformat'' of
                 None \<Rightarrow> Inl KeyError | Some a \<Rightarrow> Inr (arg_of_attr a)) (\<lambda>nformat.
     bind_err (HDF5Field_chunksize (groups h (fid self))) (\<lambda>cs.
       HDF5DataFrame_create_numeric s h grp
         [PySession, PyStr name, nformat, ts, arg_of_attr cs] [])))"

text \<open>
  \<open>NumericField.apply_filter(self, filter_to_apply, dstfld=None)\<close> as a callee: the
  binding, then the body modelled above.
\<close>

definition NumericField_apply_filter_call ::
  "'a hdf5 \<Rightarrow> HDF5Field \<Rightarrow> pyarg list \<Rightarrow> (string \<times> pyarg) list \<Rightarrow> error + HDF5Field \<times> 'a hdf5" where
  "NumericField_apply_filter_call h self args kwargs =
     (case bind_args [''filter_to_apply'', ''dstfld''] 1 args kwargs of
        None \<Rightarrow> Inl TypeError
      | Some env \<Rightarrow>
          (case env ''filter_to_apply'' of
             Some (PyMask m) \<Rightarrow>
               bind_err (case env ''dstfld'' of
                           None \<Rightarrow> Inr None
                         | Some PyNone \<Rightarrow> Inr None
                         | Some (PyField d) \<Rightarrow> Inr (Some d)
                         | _ \<Rightarrow> Inl AttributeError) (\<lambda>dstfld.
               bind_err (NumericField_apply_filter (groups h) self m dstfld) (\<lambda>(d, st).
                 Inr (d, h\<lparr>groups := st\<rparr>)))
           | _ \<Rightarrow> Inl IndexError))"

text \<open>
  \<open>HDF5DataFrame.apply_filter(self, filter_to_apply, ddf=None)\<close>: with a destination,
  for each column in insertion order \<open>field.create_like(ddf, name)\<close> and then
  \<open>field.apply_filter(filter_to_apply, target=newfld)\<close>; without one, for each column
  \<open>field.apply_filter(filter_to_apply, in_place=True)\<close>.
\<close>

fun apply_filter_to_destination ::
  "session \<Rightarrow> 'a hdf5 \<Rightarrow> (string \<times> HDF5Field) list \<Rightarrow> bool list \<Rightarrow> HDF5DataFrame
   \<Rightarrow> error + 'a hdf5 \<times> HDF5DataFrame" where
  "apply_filter_to_destination s h [] filter_to_apply ddf = Inr (h, ddf)"
| "apply_filter_to_destination s h ((name, fld) # cols) filter_to_apply ddf =
     bind_err (NumericField_create_like s h fld ddf name PyNone) (\<lambda>(newfld, h, ddf).
     bind_err (NumericField_apply_filter_call h fld [PyMask filter_to_apply]
                 [(''target'', PyField newfld)]) (\<lambda>(d, h).
       apply_filter_to_destination s h cols filter_to_apply ddf))"

fun apply_filter_in_place ::
  "'a hdf5 \<Rightarrow> HDF5Field list \<Rightarrow> bool list \<Rightarrow> error + 'a hdf5" where
  "apply_filter_in_place h [] filter_to_apply = Inr h"
| "apply_filter_in_place h (fld # flds) filter_to_apply =
     bind_err (NumericField_apply_filter_call h fld [PyMask filter_to_apply]
                 [(''in_place'', PyBool True)]) (\<lambda>(d, h).
       apply_filter_in_place h flds filter_to_apply)"

definition HDF5DataFrame_apply_filter ::
  "session \<Rightarrow> 'a hdf5 \<Rightarrow> HDF5DataFrame \<Rightarrow> bool list \<Rightarrow> HDF5DataFrame option
   \<Rightarrow> error + 'a hdf5 \<times> HDF5DataFrame" where
  "HDF5DataFrame_apply_filter s h self filter_to_apply ddf =
     (case ddf of
        Some ddf \<Rightarrow> apply_filter_to_destination s h (columns self) filter_to_apply ddf
      | None \<Rightarrow>
          bind_err (apply_filter_in_place h (map snd (columns self)) filter_to_apply)
            (\<lambda>h. Inr (h, self)))"

subsection \<open>merge\<close>

text \<open>
  Modelled from the spec: \<open>ops.safe_map_values\<close> (exetera/core/operations.py) is not
  among the sources. The spec has each requested field gathered "through
  \<open>right_to_dest\<close>/\<open>right_valid\<close> into a new field", "using validity to fill a
  type-appropriate unset value for unmatched rows (numeric: 0 ...)".
\<close>

definition safe_map_values :: "int list \<Rightarrow> nat option list \<Rightarrow> bool list \<Rightarrow> int list" where
  "safe_map_values data_field map_field map_filter =
     map (\<lambda>(i, valid). if valid then (case i of Some j \<Rightarrow> data_field ! j | None \<Rightarrow> 0) else 0)
       (zip map_field map_filter)"

text \<open>
  \<open>pd.merge\<close> belongs to pandas; the joined frame is a parameter of the model: the
  function \<open>join\<close> gives, for the two key columns and \<open>how\<close>, the rows of the joined
  frame as pairs of the columns \<open>l_i\<close> and \<open>r_i\<close>, a row position or \<open>None\<close> for pandas'
  NaN. The cast of \<open>l_i\<close> and \<open>r_i\<close> to int32 turns NaN into an unspecified integer that
  is never read; the maps keep \<open>None\<close> there. The validity flags are written to a numeric
  field of format \<open>bool\<close> as 0 and 1.
\<close>

datatype how = Left | Right | Inner | Outer

fun merge_fields ::
  "session \<Rightarrow> 'a hdf5 \<Rightarrow> HDF5DataFrame \<Rightarrow> string list \<Rightarrow> string list \<Rightarrow> string
   \<Rightarrow> ('a list \<Rightarrow> 'a list) \<Rightarrow> HDF5DataFrame \<Rightarrow> error + 'a hdf5 \<times> HDF5DataFrame" where
  "merge_fields s h src [] others suffix gather dest = Inr (h, dest)"
| "merge_fields s h src (f # fs) others suffix gather dest =
     (let dest_f = (if f \<in> set others then f @ suffix else f)
      in bind_err (HDF5DataFrame_getitem src f) (\<lambda>r.
         bind_err (NumericField_create_like s h r dest dest_f PyNone) (\<lambda>(d, h, dest).
         bind_err (data_getitem (groups h) r) (\<lambda>column.
         bind_err (data_write (groups h) d (gather column)) (\<lambda>st.
           merge_fields s (h\<lparr>groups := st\<rparr>) src fs others suffix gather dest)))))"

definition write_valid_flag ::
  "session \<Rightarrow> int hdf5 \<Rightarrow> HDF5DataFrame \<Rightarrow> string \<Rightarrow> bool list
   \<Rightarrow> error + int hdf5 \<times> HDF5DataFrame" where
  "write_valid_flag s h dest suffix to_d_filt =
     (if \<not> list_all (\<lambda>b. b) to_d_filt then
        bind_err (HDF5DataFrame_create_numeric s h dest
                    [PyStr (''valid'' @ suffix), PyStr ''bool''] []) (\<lambda>(d, h, dest).
        bind_err (data_write (groups h) d (map (\<lambda>b. if b then 1 else 0) to_d_filt)) (\<lambda>st.
          Inr (h\<lparr>groups := st\<rparr>, dest)))
      else Inr (h, dest))"

definition merge ::
  "session \<Rightarrow> (int list \<Rightarrow> int list \<Rightarrow> how \<Rightarrow> (nat option \<times> nat option) list) \<Rightarrow> int hdf5
   \<Rightarrow> HDF5DataFrame \<Rightarrow> HDF5DataFrame \<Rightarrow> HDF5DataFrame \<Rightarrow> string \<Rightarrow> string
   \<Rightarrow> string list option \<Rightarrow> string list option \<Rightarrow> string \<Rightarrow> string \<Rightarrow> how
   \<Rightarrow> error + int hdf5 \<times> HDF5DataFrame" where
  "merge s join h left right dest left_on right_on left_fields right_fields
         left_suffix right_suffix hw =
     bind_err (HDF5DataFrame_getitem left left_on) (\<lambda>left_on'.
     bind_err (HDF5DataFrame_getitem right right_on) (\<lambda>right_on'.
     bind_err (data_getitem (groups h) left_on') (\<lambda>l_k.
     bind_err (data_getitem (groups h) right_on') (\<lambda>r_k.
       let df = join l_k r_k hw;
           l_to_d_map = map fst df;
           l_to_d_filt = map (\<lambda>i. i \<noteq> None) l_to_d_map;
           r_to_d_map = map snd df;
           r_to_d_filt = map (\<lambda>i. i \<noteq> None) r_to_d_map;
           left_fields' = (case left_fields of None \<Rightarrow> HDF5DataFrame_keys left | Some fs \<Rightarrow> fs);
           right_fields' = (case right_fields of None \<Rightarrow> HDF5DataFrame_keys right | Some fs \<Rightarrow> fs)
       in
       bind_err (merge_fields s h right right_fields' left_fields' right_suffix
                   (\<lambda>column. safe_map_values column r_to_d_map r_to_d_filt) dest) (\<lambda>(h, dest).
       bind_err (write_valid_flag s h dest right_suffix r_to_d_filt) (\<lambda>(h, dest).
       bind_err (merge_fields s h left left_fields' right_fields' left_suffix
                   (\<lambda>column. safe_map_values column l_to_d_map l_to_d_filt) dest) (\<lambda>(h, dest).
         write_valid_flag s h dest left_suffix l_to_d_filt)))))))"

subsection \<open>Example data frames\<close>

text \<open>
  The file of the test \<open>test_apply_filter\<close>: the data frame \<open>df\<close> with the numeric field
  \<open>numf\<close> of eight rows, and the empty data frame \<open>df2\<close>. For \<open>merge\<close>: a left frame with
  the keys 1 and 2, a right frame with the key 1.
\<close>

definition numeric_group :: "int list \<Rightarrow> int h5field" where
  "numeric_group rows =
     \<lparr>attrs = [''chunksize'' \<mapsto> IntAttr 4096, ''timestamp'' \<mapsto> IntAttr 4096,
               ''fieldtype'' \<mapsto> StrAttr ''numeric,int32'', ''nformat'' \<mapsto> StrAttr ''int32''],
      dsets = [''values'' \<mapsto> rows], names = Map.empty\<rparr>"

definition example_file :: "int hdf5" where
  "example_file =
     \<lparr>groups = (\<lambda>g. if g = 0 then numeric_group [1, 2, 3, 4, 5, 6, 7, 8]
                     else if g = 1 then numeric_group [1, 2]
                     else numeric_group [1]),
      next_group = 3\<rparr>"

definition example_df :: HDF5DataFrame where
  "example_df = \<lparr>df_name = ''df'', columns = [(''numf'', \<lparr>fid = 0, write_enabled = True\<rparr>)],
                 h5group = [''numf'' \<mapsto> 0]\<rparr>"

definition example_df2 :: HDF5DataFrame where
  "example_df2 = \<lparr>df_name = ''df2'', columns = [], h5group = Map.empty\<rparr>"

definition example_left :: HDF5DataFrame where
  "example_left = \<lparr>df_name = ''left'', columns = [(''k'', \<lparr>fid = 1, write_enabled = True\<rparr>)],
                   h5group = [''k'' \<mapsto> 1]\<rparr>"

definition example_right :: HDF5DataFrame where
  "example_right = \<lparr>df_name = ''right'', columns = [(''k'', \<lparr>fid = 2, write_enabled = True\<rparr>)],
                    h5group = [''k'' \<mapsto> 2]\<rparr>"

definition example_session :: session where
  "example_session = \<lparr>session_chunksize = 4096\<rparr>"

text \<open>
  The joined frames pandas gives for these keys: the left join pairs left row 0 with
  right row 0 and leaves left row 1 unmatched; the inner join has the matched pair only.
\<close>

definition join_left :: "int list \<Rightarrow> int list \<Rightarrow> how \<Rightarrow> (nat option \<times> nat option) list" where
  "join_left l_k r_k hw = [(Some 0, Some 0), (Some 1, None)]"

definition join_inner :: "int list \<Rightarrow> int list \<Rightarrow> how \<Rightarrow> (nat option \<times> nat option) list" where
  "join_inner l_k r_k hw = [(Some 0, Some 0)]"

subsection \<open>Deleting a field by name\<close>




subsection \<open>The calls that do not bind\<close>

lemma bind_too_many_positional:
  "length params < length args \<Longrightarrow> bind_args params required args kwargs = None"
  by (simp add: bind_args_def)

lemma bind_unexpected_keyword:
  "k \<notin> set params \<Longrightarrow> bind_args params required args ((k, v) # kwargs) = None"
  by (auto simp: bind_args_def dest: in_set_dropD)

text \<open>
  \<open>create_like\<close> passes five positional arguments to \<open>create_numeric\<close>, which has four
  parameters; \<open>create_numeric\<close> passes \<open>write_enabled\<close> to the field's constructor both as
  the fourth positional argument and as a keyword; the data frame passes \<open>target\<close> and
  \<open>in_place\<close> to \<open>apply_filter\<close>, whose second parameter is \<open>dstfld\<close>.
\<close>

lemma create_numeric_five_positional:
  "HDF5DataFrame_create_numeric s h df [a1, a2, a3, a4, a5] kwargs = Inl TypeError"
  by (simp add: HDF5DataFrame_create_numeric_def bind_too_many_positional)

lemma NumericField_init_as_called:
  "NumericField_init h [a1, a2, a3, a4] [(''write_enabled'', v)] = Inl TypeError"
  by (simp add: NumericField_init_def bind_args_def)

lemma apply_filter_call_target:
  "NumericField_apply_filter_call h fld args [(''target'', v)] = Inl TypeError"
  by (simp add: NumericField_apply_filter_call_def bind_unexpected_keyword)

lemma apply_filter_call_in_place:
  "NumericField_apply_filter_call h fld args [(''in_place'', v)] = Inl TypeError"
  by (simp add: NumericField_apply_filter_call_def bind_unexpected_keyword)

lemma create_like_raises:
  assumes "attrs (groups h (fid fld)) ''timestamp'' \<noteq> None"
    and "attrs (groups h (fid fld)) ''nformat'' \<noteq> None"
    and "attrs (groups h (fid fld)) ''chunksize'' \<noteq> None"
  shows "NumericField_create_like s h fld ddf name PyNone = Inl TypeError"
  using assms
  by (auto simp: NumericField_create_like_def HDF5Field_timestamp_def HDF5Field_chunksize_def
      create_numeric_five_positional)

text \<open>
  C4 (the code at the failing input). On the data frame of \<open>test_apply_filter\<close> (one
  numeric field of eight rows) and its mask, \<open>DataFrame.apply_filter\<close> raises TypeError
  with a destination data frame (in \<open>create_like\<close>, before any row is filtered) and
  without one (the keyword \<open>in_place\<close>); the claim and the test expect the filtered
  destination, respectively the filtered source, to be returned.
\<close>

theorem dataframe_apply_filter_raises:
  "HDF5DataFrame_apply_filter example_session example_file example_df
     [False, True, False, True, False, True, True, False] (Some example_df2) = Inl TypeError \<and>
   HDF5DataFrame_apply_filter example_session example_file example_df
     [False, True, False, True, False, True, True, False] None = Inl TypeError"
proof -
  have a: "attrs (groups example_file (fid \<lparr>fid = 0, write_enabled = True\<rparr>)) ''timestamp'' \<noteq> None"
    "attrs (groups example_file (fid \<lparr>fid = 0, write_enabled = True\<rparr>)) ''nformat'' \<noteq> None"
    "attrs (groups example_file (fid \<lparr>fid = 0, write_enabled = True\<rparr>)) ''chunksize'' \<noteq> None"
    by (simp_all add: example_file_def numeric_group_def)
  show ?thesis
    by (simp add: HDF5DataFrame_apply_filter_def example_df_def create_like_raises [OF a]
        apply_filter_call_in_place)
qed

text \<open>
  C5 (the code at the failing input). With the left keys 1, 2 and the right key 1, a left
  join has one unmatched row; with no fields requested, \<open>merge\<close> then raises TypeError
  when it creates the flag field \<open>valid_r\<close>, while the inner join of the same frames, all
  rows matched, returns normally. With the fields requested (the default), \<open>merge\<close>
  raises TypeError at the first \<open>create_like\<close>, whatever the keys. The claim expects no
  exception and the flag field in the destination.
\<close>

theorem merge_unmatched_key_raises:
  "merge example_session join_left example_file example_left example_right example_df2
     ''k'' ''k'' (Some []) (Some []) ''_l'' ''_r'' Left = Inl TypeError \<and>
   \<not> isl (merge example_session join_inner example_file example_left example_right example_df2
            ''k'' ''k'' (Some []) (Some []) ''_l'' ''_r'' Inner) \<and>
   merge example_session join_inner example_file example_left example_right example_df2
     ''k'' ''k'' None None ''_l'' ''_r'' Inner = Inl TypeError"
proof -
  have 1: "merge example_session join_left example_file example_left example_right example_df2
     ''k'' ''k'' (Some []) (Some []) ''_l'' ''_r'' Left = Inl TypeError"
    by (simp add: merge_def join_left_def example_left_def example_right_def example_df2_def
        example_file_def HDF5DataFrame_getitem_def HDF5DataFrame_contains_def data_getitem_def
        FieldArray_getitem_def h5_dataset_def numeric_group_def Let_def write_valid_flag_def
        HDF5DataFrame_create_numeric_def bind_args_def numeric_field_constructor_def
        base_field_contructor_def as_group_def DataWriter_write_def NumericField_init_as_called)
  have 2: "\<not> isl (merge example_session join_inner example_file example_left example_right
            example_df2 ''k'' ''k'' (Some []) (Some []) ''_l'' ''_r'' Inner)"
    by (simp add: merge_def join_inner_def example_left_def example_right_def example_df2_def
        example_file_def HDF5DataFrame_getitem_def HDF5DataFrame_contains_def data_getitem_def
        FieldArray_getitem_def h5_dataset_def numeric_group_def Let_def write_valid_flag_def)
  have 3: "merge example_session join_inner example_file example_left example_right example_df2
     ''k'' ''k'' None None ''_l'' ''_r'' Inner = Inl TypeError"
    by (simp add: merge_def join_inner_def example_left_def example_right_def example_df2_def
        example_file_def HDF5DataFrame_getitem_def HDF5DataFrame_contains_def
        HDF5DataFrame_keys_def data_getitem_def FieldArray_getitem_def h5_dataset_def
        numeric_group_def Let_def NumericField_create_like_def HDF5Field_timestamp_def
        HDF5Field_chunksize_def create_numeric_five_positional)
  from 1 2 3 show ?thesis by blast
qed

end
